theory Spec2Isabelle
  imports Main
begin

section \<open>Python values\<close>

text \<open>
  The script \<^verbatim>\<open>jira-releaser.py\<close> works on two kinds of text. A \<^verbatim>\<open>bytes\<close> value
  (the output of a subprocess) is a list of 8-bit characters; a \<^verbatim>\<open>str\<close> value is a
  list of Unicode code points. \<open>lit\<close> turns a literal of the source into the
  \<^verbatim>\<open>str\<close> it denotes (all literals of the script are ASCII).
\<close>

type_synonym bytes = "char list"

type_synonym str = "nat list"

definition lit :: "string \<Rightarrow> str" where
  "lit cs = map of_char cs"

text \<open>
  A value produced by \<^verbatim>\<open>json.loads\<close>: \<open>JNull\<close> is Python's \<^verbatim>\<open>None\<close>, a
  \<open>JDict\<close> lists the items of a \<^verbatim>\<open>dict\<close> (its keys are distinct), and a float is
  carried by the text of its literal, since no function of the script computes with it.
\<close>

datatype json =
    JNull
  | JBool bool
  | JInt int
  | JFloat str
  | JStr str
  | JList "json list"
  | JDict "(str \<times> json) list"

text \<open>
  The body of an HTTP reply is represented by what the script's decoding of it yields:
  \<open>Undecodable\<close> when decoding the bytes raises \<^verbatim>\<open>UnicodeDecodeError\<close>, \<open>NotJSON\<close>
  when \<^verbatim>\<open>json.loads\<close> raises \<^verbatim>\<open>JSONDecodeError\<close>, and \<open>Parsed v\<close> when
  \<^verbatim>\<open>json.loads\<close> returns \<open>v\<close>.
\<close>

datatype body = Undecodable | NotJSON | Parsed json

text \<open>
  Exceptions are values. \<open>HTTPError\<close> carries the status code and the body that
  \<^verbatim>\<open>e.read()\<close> returns; \<open>URLError\<close> stands for every other exception of
  \<^verbatim>\<open>urlopen\<close>, and \<open>OSError\<close> for a subprocess that could not be started.
  \<open>ReError\<close> is \<^verbatim>\<open>re.error\<close>, raised for a pattern that does not compile.
\<close>

datatype py_error =
    CalledProcessError
  | OSError
  | UnicodeDecodeError
  | UnicodeEncodeError
  | JSONDecodeError
  | HTTPError nat body
  | URLError
  | ValueError
  | TypeError
  | KeyError
  | AttributeError
  | IndexError
  | ReError

subsection \<open>bytes: strip, split, decode\<close>

definition whitespace :: "char \<Rightarrow> bool" where
  "whitespace c = (of_char c \<in> {9, 10, 11, 12, 13, 32 :: nat})"

definition strip :: "bytes \<Rightarrow> bytes" where
  "strip bs = rev (dropWhile whitespace (rev (dropWhile whitespace bs)))"

text \<open>\<^verbatim>\<open>xs.split(sep)\<close> for a separator of one element: the empty input gives one empty piece.\<close>

fun split_on :: "'a \<Rightarrow> 'a list \<Rightarrow> 'a list list" where
  "split_on sep [] = [[]]"
| "split_on sep (c # cs) =
     (if c = sep then [] # split_on sep cs
      else (case split_on sep cs of [] \<Rightarrow> [[c]] | p # ps \<Rightarrow> (c # p) # ps))"

definition cont :: "nat \<Rightarrow> bool" where
  "cont b = (128 \<le> b \<and> b < 192)"

text \<open>
  Strict UTF-8, as \<^verbatim>\<open>bytes.decode("utf-8")\<close> reads it: overlong forms, surrogates and
  code points past U+10FFFF are refused.
\<close>

fun utf8_decode :: "nat list \<Rightarrow> str option" where
  "utf8_decode [] = Some []"
| "utf8_decode (b # bs) =
    (if b < 128 then map_option ((#) b) (utf8_decode bs)
     else if 194 \<le> b \<and> b < 224 then
       (case bs of
          c1 # r \<Rightarrow>
            if cont c1 then map_option ((#) ((b - 192) * 64 + (c1 - 128))) (utf8_decode r)
            else None
        | _ \<Rightarrow> None)
     else if 224 \<le> b \<and> b < 240 then
       (case bs of
          c1 # c2 # r \<Rightarrow>
            (let cp = (b - 224) * 4096 + (c1 - 128) * 64 + (c2 - 128) in
             if cont c1 \<and> cont c2 \<and> 2048 \<le> cp \<and> (cp < 55296 \<or> 57344 \<le> cp)
             then map_option ((#) cp) (utf8_decode r) else None)
        | _ \<Rightarrow> None)
     else if 240 \<le> b \<and> b < 245 then
       (case bs of
          c1 # c2 # c3 # r \<Rightarrow>
            (let cp = (b - 240) * 262144 + (c1 - 128) * 4096 + (c2 - 128) * 64 + (c3 - 128) in
             if cont c1 \<and> cont c2 \<and> cont c3 \<and> 65536 \<le> cp \<and> cp < 1114112
             then map_option ((#) cp) (utf8_decode r) else None)
        | _ \<Rightarrow> None)
     else None)"

definition decode :: "bytes \<Rightarrow> py_error + str" where
  "decode bs =
     (case utf8_decode (map of_char bs) of
        None \<Rightarrow> Inl UnicodeDecodeError
      | Some s \<Rightarrow> Inr s)"

text \<open>The list comprehension \<^verbatim>\<open>[t.decode("utf-8") for t in ts]\<close>: the first failure raises.\<close>

fun decode_each :: "bytes list \<Rightarrow> py_error + str list" where
  "decode_each [] = Inr []"
| "decode_each (t # ts) =
     (case decode t of
        Inl e \<Rightarrow> Inl e
      | Inr s \<Rightarrow> (case decode_each ts of Inl e \<Rightarrow> Inl e | Inr ss \<Rightarrow> Inr (s # ss)))"

text \<open>\<^verbatim>\<open>xs.index(x)\<close>: the first position of \<open>x\<close>, \<^verbatim>\<open>ValueError\<close> when there is none.\<close>

fun index_of :: "'a list \<Rightarrow> 'a \<Rightarrow> py_error + nat" where
  "index_of [] x = Inl ValueError"
| "index_of (y # ys) x =
     (if y = x then Inr 0
      else (case index_of ys x of Inl e \<Rightarrow> Inl e | Inr i \<Rightarrow> Inr (Suc i)))"

subsection \<open>str: ASCII encoding, Base64, dict access\<close>

definition encode_ascii :: "str \<Rightarrow> py_error + bytes" where
  "encode_ascii s =
     (if list_all (\<lambda>c. c < 128) s then Inr (map char_of s) else Inl UnicodeEncodeError)"

definition b64_alphabet :: "char list" where
  "b64_alphabet = ''ABCDEFGHIJKLMNOPQRSTUVWXYZabcdefghijklmnopqrstuvwxyz0123456789+/''"

definition b64_char :: "nat \<Rightarrow> char" where
  "b64_char n = b64_alphabet ! (n mod 64)"

fun b64encode :: "bytes \<Rightarrow> bytes" where
  "b64encode (a # b # c # r) =
     (let n = of_char a * 65536 + of_char b * 256 + of_char c in
      b64_char (n div 262144) # b64_char (n div 4096) # b64_char (n div 64) # b64_char n
        # b64encode r)"
| "b64encode [a, b] =
     (let n = of_char a * 65536 + of_char b * 256 in
      [b64_char (n div 262144), b64_char (n div 4096), b64_char (n div 64), CHR ''=''])"
| "b64encode [a] =
     (let n = of_char a * 65536 in
      [b64_char (n div 262144), b64_char (n div 4096), CHR ''='', CHR ''=''])"
| "b64encode [] = []"

text \<open>
  \<^verbatim>\<open>x[key]\<close> and \<^verbatim>\<open>x.get(key, default)\<close> for a \<^verbatim>\<open>str\<close> key, on a value that
  \<^verbatim>\<open>json.loads\<close> produced: only a \<^verbatim>\<open>dict\<close> has either.
\<close>

fun getitem :: "json \<Rightarrow> str \<Rightarrow> py_error + json" where
  "getitem (JDict d) k = (case map_of d k of None \<Rightarrow> Inl KeyError | Some v \<Rightarrow> Inr v)"
| "getitem v k = Inl TypeError"

fun dict_get :: "json \<Rightarrow> str \<Rightarrow> json \<Rightarrow> py_error + json" where
  "dict_get (JDict d) k dflt = Inr (case map_of d k of None \<Rightarrow> dflt | Some v \<Rightarrow> v)"
| "dict_get v k dflt = Inl AttributeError"

definition loads :: "body \<Rightarrow> py_error + json" where
  "loads b =
     (case b of
        Undecodable \<Rightarrow> Inl UnicodeDecodeError
      | NotJSON \<Rightarrow> Inl JSONDecodeError
      | Parsed v \<Rightarrow> Inr v)"

text \<open>A list comprehension whose element expression can raise: the first failure raises.\<close>

fun traverse :: "('a \<Rightarrow> py_error + 'b) \<Rightarrow> 'a list \<Rightarrow> py_error + 'b list" where
  "traverse f [] = Inr []"
| "traverse f (x # xs) =
     (case f x of
        Inl e \<Rightarrow> Inl e
      | Inr y \<Rightarrow> (case traverse f xs of Inl e \<Rightarrow> Inl e | Inr ys \<Rightarrow> Inr (y # ys)))"

text \<open>
  \<^verbatim>\<open>list(set(xs))\<close>: each distinct element once. The order in which a set of
  \<^verbatim>\<open>str\<close> is iterated depends on the hash seed of the process; \<open>shuffle seed\<close>
  arranges a list in the order the seed picks.
\<close>

definition insert_at :: "nat \<Rightarrow> 'a \<Rightarrow> 'a list \<Rightarrow> 'a list" where
  "insert_at i x xs = take i xs @ x # drop i xs"

primrec shuffle :: "nat \<Rightarrow> 'a list \<Rightarrow> 'a list" where
  "shuffle seed [] = []"
| "shuffle seed (x # xs) =
     insert_at (seed mod Suc (length xs)) x (shuffle (seed div Suc (length xs)) xs)"

definition list_of_set :: "nat \<Rightarrow> 'a list \<Rightarrow> 'a list" where
  "list_of_set seed xs = shuffle seed (remdups xs)"

subsection \<open>Regular expressions\<close>

text \<open>
  \<^verbatim>\<open>\d\<close> in a \<^verbatim>\<open>str\<close> pattern matches the code points of category Nd. The ranges
  are those of Unicode 14.0.0 (CPython 3.11); no proof below depends on the table
  beyond the fact that \<^verbatim>\<open>#\<close> is not a digit.
\<close>

definition decimal_ranges :: "(nat \<times> nat) list" where
  "decimal_ranges =
     [(48, 57), (1632, 1641), (1776, 1785), (1984, 1993), (2406, 2415), (2534, 2543),
      (2662, 2671), (2790, 2799), (2918, 2927), (3046, 3055), (3174, 3183), (3302, 3311),
      (3430, 3439), (3558, 3567), (3664, 3673), (3792, 3801), (3872, 3881), (4160, 4169),
      (4240, 4249), (6112, 6121), (6160, 6169), (6470, 6479), (6608, 6617), (6784, 6793),
      (6800, 6809), (6992, 7001), (7088, 7097), (7232, 7241), (7248, 7257), (42528, 42537),
      (43216, 43225), (43264, 43273), (43472, 43481), (43504, 43513), (43600, 43609),
      (44016, 44025), (65296, 65305), (66720, 66729), (68912, 68921), (69734, 69743),
      (69872, 69881), (69942, 69951), (70096, 70105), (70384, 70393), (70736, 70745),
      (70864, 70873), (71248, 71257), (71360, 71369), (71472, 71481), (71904, 71913),
      (72016, 72025), (72784, 72793), (73040, 73049), (73120, 73129), (92768, 92777),
      (92864, 92873), (93008, 93017), (120782, 120831), (123200, 123209), (123632, 123641),
      (125264, 125273), (130032, 130041)]"

definition isdecimal :: "nat \<Rightarrow> bool" where
  "isdecimal c = list_ex (\<lambda>(lo, hi). lo \<le> c \<and> c \<le> hi) decimal_ranges"

text \<open>
  The patterns of the script are sequences of these items: a literal character,
  \<^verbatim>\<open>.\<close> (any character but a newline), \<^verbatim>\<open>\d+\<close> (also written \<^verbatim>\<open>[\d]+\<close>),
  and \<^verbatim>\<open>$\<close>. \<open>match_here p s\<close> is the
  length of the match of \<open>p\<close> at the start of \<open>s\<close>, found as the backtracking matcher
  of \<^verbatim>\<open>re\<close> finds it: \<^verbatim>\<open>\d+\<close> takes the longest run of digits first and gives
  digits back one at a time while the rest of the pattern fails. \<^verbatim>\<open>$\<close> matches at
  the end of the string and before a newline that ends it.
\<close>

datatype item = Lit nat | AnyChar | DigitPlus | Eos

fun backtrack :: "(nat \<Rightarrow> 'a option) \<Rightarrow> nat \<Rightarrow> 'a option" where
  "backtrack f 0 = None"
| "backtrack f (Suc k) = (case f (Suc k) of Some y \<Rightarrow> Some y | None \<Rightarrow> backtrack f k)"

fun match_here :: "item list \<Rightarrow> str \<Rightarrow> nat option" where
  "match_here [] s = Some 0"
| "match_here (Lit c # p) s =
     (case s of
        [] \<Rightarrow> None
      | x # r \<Rightarrow> if x = c then map_option Suc (match_here p r) else None)"
| "match_here (AnyChar # p) s =
     (case s of
        [] \<Rightarrow> None
      | x # r \<Rightarrow> if x \<noteq> 10 then map_option Suc (match_here p r) else None)"
| "match_here (DigitPlus # p) s =
     backtrack (\<lambda>k. map_option ((+) k) (match_here p (drop k s)))
       (length (takeWhile isdecimal s))"
| "match_here (Eos # p) s =
     (if s = [] \<or> s = [10] then match_here p s else None)"

text \<open>\<^verbatim>\<open>re.match(p, s)\<close> as a truth value: a match at the start of \<open>s\<close>.\<close>

definition re_match :: "item list \<Rightarrow> str \<Rightarrow> bool" where
  "re_match p s = (match_here p s \<noteq> None)"

text \<open>
  \<^verbatim>\<open>re.findall(p, s)\<close> for a pattern without groups: the matches from left to right,
  the search resuming where the last match ended.
\<close>

fun findall :: "item list \<Rightarrow> str \<Rightarrow> str list" where
  "findall p [] = (case match_here p [] of None \<Rightarrow> [] | Some n \<Rightarrow> [[]])"
| "findall p (c # s) =
     (case match_here p (c # s) of
        None \<Rightarrow> findall p s
      | Some n \<Rightarrow> take n (c # s) # findall p (drop (n - 1) s))"

section \<open>The outside world\<close>

text \<open>
  The script talks to the world through \<^verbatim>\<open>subprocess.check_output\<close> and
  \<^verbatim>\<open>urllib.request.urlopen\<close>. Every such call is appended to a log, and the
  environment decides each reply from the calls made before it and the call itself.
  A request records the method, the URL, the headers in the order \<^verbatim>\<open>add_header\<close>
  received them and, for the payload, the value handed to \<^verbatim>\<open>json.dumps\<close>.
  The text written by \<^verbatim>\<open>print\<close> is not modelled; the evaluation of its argument
  is, where it can raise. The environment also holds what the run takes from its
  surroundings: the date, the hash seed of the process, and which URLs
  \<^verbatim>\<open>urllib.request.Request\<close> accepts (it raises \<^verbatim>\<open>ValueError\<close> for a URL in which
  it finds no type). The last field is the rest of the \<^verbatim>\<open>re\<close> library: for the text
  of a pattern that the matcher above does not cover, \<open>re_other\<close> tells what
  \<^verbatim>\<open>re.findall\<close> does with it, which is to raise, or to return the matches it finds
  in each string.
\<close>

datatype http_method = GET | POST | PUT

record request =
  req_method :: "http_method"
  req_url :: "str"
  req_headers :: "(str \<times> str) list"
  req_data :: "json option"

datatype call = Subprocess "str list" | UrlOpen "request"

datatype proc_reply = Exit0 "bytes" | NonZeroExit | NotStarted

datatype http_reply = Response "body" | HTTPFailure nat "body" | URLFailure

record env =
  proc :: "call list \<Rightarrow> str list \<Rightarrow> proc_reply"
  http :: "call list \<Rightarrow> request \<Rightarrow> http_reply"
  today :: "str"
  hash_seed :: "nat"
  accepts_url :: "str \<Rightarrow> bool"
  re_other :: "str \<Rightarrow> py_error + (str \<Rightarrow> str list)"

type_synonym 'a io = "call list \<Rightarrow> (py_error + 'a) \<times> call list"

definition bind_io :: "'a io \<Rightarrow> ('a \<Rightarrow> 'b io) \<Rightarrow> 'b io" where
  "bind_io m f tr =
     (case m tr of
        (Inl e, tr') \<Rightarrow> (Inl e, tr')
      | (Inr x, tr') \<Rightarrow> f x tr')"

definition lift_io :: "py_error + 'a \<Rightarrow> 'a io" where
  "lift_io r tr = (r, tr)"

definition check_output :: "env \<Rightarrow> str list \<Rightarrow> bytes io" where
  "check_output E argv tr =
     (case proc E tr argv of
        Exit0 out \<Rightarrow> Inr out
      | NonZeroExit \<Rightarrow> Inl CalledProcessError
      | NotStarted \<Rightarrow> Inl OSError,
      tr @ [Subprocess argv])"

section \<open>find\_previous\_version\_tag\<close>

definition hyphen :: "nat" where
  "hyphen = of_char (CHR ''-'')"

definition git_tag_argv :: "str list" where
  "git_tag_argv =
     [lit ''git'', lit ''tag'', lit ''--sort'', lit ''-v:refname'', lit ''-l'', lit ''v[0-9]*'']"

text \<open>
  The value of \<^verbatim>\<open>tags\<close> after line 116: the stripped output split at newlines, each
  piece decoded, and the tags with a hyphen dropped.
\<close>

definition candidate_tags :: "bytes \<Rightarrow> py_error + str list" where
  "candidate_tags out =
     (case decode_each (split_on (CHR 0x0A) (strip out)) of
        Inl e \<Rightarrow> Inl e
      | Inr tags \<Rightarrow> Inr (filter (\<lambda>t. hyphen \<notin> set t) tags))"

text \<open>Lines 118 to 127: the search in \<^verbatim>\<open>tags\<close>. \<^verbatim>\<open>tags[i + 1]\<close> raises past the end.\<close>

definition previous_tag :: "str list \<Rightarrow> str \<Rightarrow> py_error + str option" where
  "previous_tag tags version =
     (if version \<notin> set tags then Inr None
      else
        (case index_of tags version of
           Inl e \<Rightarrow> Inl e
         | Inr i \<Rightarrow>
             if length tags \<le> i then Inr None
             else if i + 1 < length tags then Inr (Some (tags ! (i + 1)))
             else Inl IndexError))"

definition find_previous_version_tag :: "env \<Rightarrow> str \<Rightarrow> str option io" where
  "find_previous_version_tag E version =
     bind_io (check_output E git_tag_argv) (\<lambda>out.
     bind_io (lift_io (candidate_tags out)) (\<lambda>tags.
     lift_io (previous_tag tags version)))"

section \<open>HTTP requests\<close>

definition Request ::
  "env \<Rightarrow> str \<Rightarrow> json option \<Rightarrow> http_method \<Rightarrow> py_error + request" where
  "Request E url payload m =
     (if accepts_url E url
      then Inr \<lparr>req_method = m, req_url = url, req_headers = [], req_data = payload\<rparr>
      else Inl ValueError)"

definition add_header :: "str \<Rightarrow> str \<Rightarrow> request \<Rightarrow> request" where
  "add_header k v req = req\<lparr>req_headers := req_headers req @ [(k, v)]\<rparr>"

definition urlopen :: "env \<Rightarrow> request \<Rightarrow> body io" where
  "urlopen E req tr =
     (case http E tr req of
        Response b \<Rightarrow> Inr b
      | HTTPFailure code b \<Rightarrow> Inl (HTTPError code b)
      | URLFailure \<Rightarrow> Inl URLError,
      tr @ [UrlOpen req])"

definition basic_auth :: "bytes \<Rightarrow> str" where
  "basic_auth encoded_credentials = lit ''Basic '' @ map of_char encoded_credentials"

section \<open>class Jira\<close>

text \<open>\<open>project\<close> is \<open>JNull\<close> (Python's \<^verbatim>\<open>None\<close>) until \<^verbatim>\<open>load_project\<close> stores a value.\<close>

record jira =
  project_key :: "str"
  email :: "str"
  api_key :: "str"
  project :: "json"
  jira_url :: "str"

definition Jira :: "str \<Rightarrow> str \<Rightarrow> str \<Rightarrow> str \<Rightarrow> jira" where
  "Jira key mail api url =
     \<lparr>project_key = key, email = mail, api_key = api, project = JNull, jira_url = url\<rparr>"

definition add_jira_auth :: "jira \<Rightarrow> request \<Rightarrow> py_error + request" where
  "add_jira_auth self req =
     (case encode_ascii (email self @ lit '':'' @ api_key self) of
        Inl e \<Rightarrow> Inl e
      | Inr credentials \<Rightarrow>
          Inr (add_header (lit ''Content-Type'') (lit ''application/json'')
                (add_header (lit ''Accept'') (lit ''application/json'')
                  (add_header (lit ''Authorization'') (basic_auth (b64encode credentials))
                    req))))"

text \<open>Lines 28 to 31: the request of \<^verbatim>\<open>load_project\<close>.\<close>

definition project_request :: "env \<Rightarrow> jira \<Rightarrow> py_error + request" where
  "project_request E self =
     (case Request E (jira_url self @ lit ''/rest/api/2/project/'' @ project_key self) None GET of
        Inl e \<Rightarrow> Inl e
      | Inr req \<Rightarrow> add_jira_auth self req)"

text \<open>\<^verbatim>\<open>load_project\<close> returns the object with the project stored.\<close>

definition load_project :: "env \<Rightarrow> jira \<Rightarrow> jira io" where
  "load_project E self =
     bind_io (lift_io (project_request E self)) (\<lambda>req.
     bind_io (urlopen E req) (\<lambda>b.
     bind_io (lift_io (loads b)) (\<lambda>v.
     lift_io (Inr (self\<lparr>project := v\<rparr>)))))"

text \<open>Lines 41 to 49: the request of \<^verbatim>\<open>add_fix_version_to_issue\<close>.\<close>

definition issue_request :: "env \<Rightarrow> jira \<Rightarrow> str \<Rightarrow> str \<Rightarrow> py_error + request" where
  "issue_request E self issue_id version =
     (let payload =
        JDict [(lit ''update'',
          JDict [(lit ''fixVersions'',
            JList [JDict [(lit ''add'', JDict [(lit ''name'', JStr version)])]])])]
      in
      case Request E (jira_url self @ lit ''/rest/api/2/issue/'' @ issue_id) (Some payload) PUT of
        Inl e \<Rightarrow> Inl e
      | Inr req \<Rightarrow> add_jira_auth self req)"

definition add_fix_version_to_issue :: "env \<Rightarrow> jira \<Rightarrow> str \<Rightarrow> str \<Rightarrow> unit io" where
  "add_fix_version_to_issue E self issue_id version =
     bind_io (lift_io (issue_request E self issue_id version)) (\<lambda>req.
     bind_io (urlopen E req) (\<lambda>b.
     lift_io (Inr ())))"

text \<open>Lines 57 to 67: the request of \<^verbatim>\<open>assert_version\<close>.\<close>

definition version_request :: "env \<Rightarrow> jira \<Rightarrow> str \<Rightarrow> py_error + request" where
  "version_request E self version =
     (case getitem (project self) (lit ''id'') of
        Inl e \<Rightarrow> Inl e
      | Inr project_id \<Rightarrow>
          (let payload =
             JDict [(lit ''archived'', JBool False),
                    (lit ''releaseDate'', JStr (today E)),
                    (lit ''name'', JStr version),
                    (lit ''projectId'', project_id),
                    (lit ''released'', JBool True)]
           in
           case Request E (jira_url self @ lit ''/rest/api/2/version'') (Some payload) POST of
             Inl e \<Rightarrow> Inl e
           | Inr req \<Rightarrow> add_jira_auth self req))"

definition already_exists :: "str" where
  "already_exists = lit ''A version with this name already exists in this project.''"

text \<open>
  Lines 73 to 78, the handler of \<^verbatim>\<open>HTTPError\<close>. Both branches of the \<^verbatim>\<open>if\<close> leave
  the handler normally: the true branch prints, the false branch is absent.
\<close>

definition on_http_error :: "body \<Rightarrow> py_error + unit" where
  "on_http_error b =
     (case loads b of
        Inl e \<Rightarrow> Inl e
      | Inr response \<Rightarrow>
          (case dict_get response (lit ''errors'') (JDict []) of
             Inl e \<Rightarrow> Inl e
           | Inr errors \<Rightarrow>
               (case dict_get errors (lit ''name'') JNull of
                  Inl e \<Rightarrow> Inl e
                | Inr name \<Rightarrow> if name = JStr already_exists then Inr () else Inr ())))"

definition assert_version :: "env \<Rightarrow> jira \<Rightarrow> str \<Rightarrow> unit io" where
  "assert_version E self version =
     bind_io (lift_io (version_request E self version)) (\<lambda>req tr.
       case urlopen E req tr of
         (Inr b, tr') \<Rightarrow> (case loads b of Inl e \<Rightarrow> (Inl e, tr') | Inr v \<Rightarrow> (Inr (), tr'))
       | (Inl (HTTPError code b), tr') \<Rightarrow> (on_http_error b, tr')
       | (Inl e, tr') \<Rightarrow> (Inl e, tr'))"

section \<open>class Github\<close>

record github =
  token :: "str"
  repo_owner :: "str"
  repo_name :: "str"

text \<open>
  The pattern \<^verbatim>\<open>f"{jira_project_key}-[\d]+"\<close>. The project key is pasted into the
  pattern as it is, so \<^verbatim>\<open>re\<close> reads it as a regular expression. A key made of
  \<^verbatim>\<open>.\<close> and of characters that stand for themselves is read by \<open>key_items\<close>; the
  pattern of any other key, one that holds another special character of \<^verbatim>\<open>re\<close>, is
  left to \<open>re_other\<close>.
\<close>

definition special_chars :: "nat list" where
  "special_chars = lit ''.^$*+?{}[]|()'' @ [of_char (CHR 0x5C)]"

definition key_item :: "nat \<Rightarrow> item option" where
  "key_item c =
     (if c = of_char (CHR ''.'') then Some AnyChar
      else if c \<in> set special_chars then None
      else Some (Lit c))"

fun key_items :: "str \<Rightarrow> item list option" where
  "key_items [] = Some []"
| "key_items (c # cs) =
     (case key_item c of
        None \<Rightarrow> None
      | Some i \<Rightarrow> (case key_items cs of None \<Rightarrow> None | Some is \<Rightarrow> Some (i # is)))"

text \<open>The text \<^verbatim>\<open>-[\d]+\<close> that follows the key.\<close>

definition key_suffix :: "str" where
  "key_suffix = lit ''-['' @ [of_char (CHR 0x5C)] @ lit ''d]+''"

text \<open>
  \<^verbatim>\<open>re.findall(f"{jira_project_key}-[\d]+", ...)\<close> with the pattern compiled: an error,
  or the function from a string to its matches.
\<close>

definition key_pattern :: "env \<Rightarrow> str \<Rightarrow> py_error + (str \<Rightarrow> str list)" where
  "key_pattern E key =
     (case key_items key of
        Some items \<Rightarrow> Inr (findall (items @ [Lit hyphen, DigitPlus]))
      | None \<Rightarrow> re_other E (key @ key_suffix))"

text \<open>\<^verbatim>\<open>re.findall(pattern, x)\<close> raises \<^verbatim>\<open>TypeError\<close> unless \<open>x\<close> is a \<^verbatim>\<open>str\<close>.\<close>

definition findall_key :: "env \<Rightarrow> str \<Rightarrow> json \<Rightarrow> py_error + str list" where
  "findall_key E key x =
     (case key_pattern E key of
        Inl e \<Rightarrow> Inl e
      | Inr matches \<Rightarrow> (case x of JStr s \<Rightarrow> Inr (matches s) | _ \<Rightarrow> Inl TypeError))"

text \<open>Lines 88 to 94: the request of \<^verbatim>\<open>get_jira_id_from_pr\<close>.\<close>

definition pull_request :: "env \<Rightarrow> github \<Rightarrow> str \<Rightarrow> py_error + request" where
  "pull_request E self pr_id =
     (case encode_ascii (token self @ lit '':'') of
        Inl e \<Rightarrow> Inl e
      | Inr credentials \<Rightarrow>
          (case Request E (lit ''https://api.github.com/repos/'' @ repo_owner self @ lit ''/''
                           @ repo_name self @ lit ''/pulls/'' @ pr_id) None GET of
             Inl e \<Rightarrow> Inl e
           | Inr req \<Rightarrow>
               Inr (add_header (lit ''Authorization'') (basic_auth (b64encode credentials)) req)))"

definition get_jira_id_from_pr :: "env \<Rightarrow> github \<Rightarrow> str \<Rightarrow> str \<Rightarrow> str list io" where
  "get_jira_id_from_pr E self jira_project_key pr_id =
     bind_io (lift_io (pull_request E self pr_id)) (\<lambda>req.
     bind_io (urlopen E req) (\<lambda>b.
     bind_io (lift_io (loads b)) (\<lambda>data.
     bind_io (lift_io (getitem data (lit ''title''))) (\<lambda>title.
     bind_io (lift_io (findall_key E jira_project_key title)) (\<lambda>ids1.
     bind_io (lift_io (getitem data (lit ''head''))) (\<lambda>head.
     bind_io (lift_io (getitem head (lit ''ref''))) (\<lambda>ref.
     bind_io (lift_io (findall_key E jira_project_key ref)) (\<lambda>ids2.
     lift_io (Inr (ids1 @ ids2))))))))))"

section \<open>list\_merged\_prs\<close>

definition hash :: "nat" where
  "hash = of_char (CHR ''#'')"

definition git_log_argv :: "str \<Rightarrow> str \<Rightarrow> str list" where
  "git_log_argv prev_version version =
     [lit ''git'', lit ''log'', prev_version @ lit ''...'' @ version,
      lit ''--grep'', lit ''#'', lit ''--grep'', lit '']'']"

text \<open>The pattern \<^verbatim>\<open>#[\d]+\<close>.\<close>

definition hash_pattern :: "item list" where
  "hash_pattern = [Lit hash, DigitPlus]"

text \<open>\<^verbatim>\<open>t.split("#")[1]\<close>.\<close>

definition after_hash :: "str \<Rightarrow> py_error + str" where
  "after_hash t = (case split_on hash t of a # b # r \<Rightarrow> Inr b | _ \<Rightarrow> Inl IndexError)"

definition list_merged_prs :: "env \<Rightarrow> str \<Rightarrow> str \<Rightarrow> str list io" where
  "list_merged_prs E prev_version version =
     bind_io (check_output E (git_log_argv prev_version version)) (\<lambda>out.
     bind_io (lift_io (decode (strip out))) (\<lambda>logs.
     lift_io (traverse after_hash (findall hash_pattern logs))))"

text \<open>
  The specification's wording of the result: the numeric parts of all
  \<^verbatim>\<open>#<digits>\<close> tokens of the log, in the order of the log. A token is a \<^verbatim>\<open>#\<close>
  with the longest run of digits after it, and the run is not empty.
\<close>

function hash_numbers :: "str \<Rightarrow> str list" where
  "hash_numbers [] = []"
| "hash_numbers (c # s) =
     (if c = hash \<and> takeWhile isdecimal s \<noteq> []
      then takeWhile isdecimal s # hash_numbers (dropWhile isdecimal s)
      else hash_numbers s)"
  by pat_completeness auto
termination
  by (relation "measure length") (auto simp: length_dropWhile_le less_Suc_eq_le)

section \<open>main\<close>

record args =
  arg_jira_project_key :: "str"
  arg_github_token :: "str"
  arg_github_repo_owner :: "str"
  arg_github_repo_name :: "str"
  arg_jira_email :: "str"
  arg_jira_api_key :: "str"
  arg_jira_url :: "str"
  arg_version :: "str option"

text \<open>
  Lines 152 to 157 and 159 to 164: a fetch whose \<^verbatim>\<open>CalledProcessError\<close> is passed
  over. The output is decoded for printing inside the \<^verbatim>\<open>try\<close>.
\<close>

definition try_fetch :: "env \<Rightarrow> str list \<Rightarrow> unit io" where
  "try_fetch E argv tr =
     (case check_output E argv tr of
        (Inl CalledProcessError, tr') \<Rightarrow> (Inr (), tr')
      | (Inl e, tr') \<Rightarrow> (Inl e, tr')
      | (Inr out, tr') \<Rightarrow>
          (case decode out of Inl e \<Rightarrow> (Inl e, tr') | Inr printed \<Rightarrow> (Inr (), tr')))"

text \<open>Lines 166 to 172: the version given on the command line, or the described tag.\<close>

definition describe_tags :: "env \<Rightarrow> str io" where
  "describe_tags E =
     bind_io (check_output E [lit ''git'', lit ''describe'', lit ''--tags''])
       (\<lambda>out. lift_io (decode (strip out)))"

definition resolve_version :: "env \<Rightarrow> args \<Rightarrow> str io" where
  "resolve_version E a =
     (case arg_version a of
        None \<Rightarrow> describe_tags E
      | Some version \<Rightarrow> if version = [] then describe_tags E else lift_io (Inr version))"

text \<open>The pattern \<^verbatim>\<open>^v\d+\.\d+\.\d+$\<close>; \<^verbatim>\<open>re.match\<close> looks at the start only.\<close>

definition release_pattern :: "item list" where
  "release_pattern =
     [Lit (of_char (CHR ''v'')), DigitPlus, Lit (of_char (CHR ''.'')), DigitPlus,
      Lit (of_char (CHR ''.'')), DigitPlus, Eos]"

text \<open>Lines 152 to 172: the fetches and the version.\<close>

definition fetch_and_resolve :: "env \<Rightarrow> args \<Rightarrow> str io" where
  "fetch_and_resolve E a =
     bind_io (try_fetch E [lit ''git'', lit ''fetch'', lit ''--unshallow'']) (\<lambda>u.
     bind_io (try_fetch E [lit ''git'', lit ''fetch'', lit ''--tags'']) (\<lambda>u.
     resolve_version E a))"

text \<open>Lines 192 to 194: the loop over the merged pull requests.\<close>

fun collect_jira_ids :: "env \<Rightarrow> github \<Rightarrow> str \<Rightarrow> str list \<Rightarrow> str list \<Rightarrow> str list io" where
  "collect_jira_ids E gh key [] jira_issue_ids = lift_io (Inr jira_issue_ids)"
| "collect_jira_ids E gh key (pr_id # prs) jira_issue_ids =
     bind_io (get_jira_id_from_pr E gh key pr_id) (\<lambda>ids.
     collect_jira_ids E gh key prs (jira_issue_ids @ ids))"

text \<open>Lines 201 and 202: the loop over the issues.\<close>

fun attach_all :: "env \<Rightarrow> jira \<Rightarrow> str \<Rightarrow> str list \<Rightarrow> unit io" where
  "attach_all E j version [] = lift_io (Inr ())"
| "attach_all E j version (issue_id # ids) =
     bind_io (add_fix_version_to_issue E j issue_id version) (\<lambda>u.
     attach_all E j version ids)"

text \<open>
  Lines 176 to 194: the two clients, the project, the previous tag, the merged pull
  requests and the issue references gathered from them, before de-duplication.
\<close>

definition gather :: "env \<Rightarrow> args \<Rightarrow> str \<Rightarrow> (jira \<times> str list) io" where
  "gather E a version =
     (let gh = \<lparr>token = arg_github_token a, repo_owner = arg_github_repo_owner a,
                repo_name = arg_github_repo_name a\<rparr>;
          j0 = Jira (arg_jira_project_key a) (arg_jira_email a) (arg_jira_api_key a)
                 (arg_jira_url a)
      in
      bind_io (load_project E j0) (\<lambda>j.
      bind_io (find_previous_version_tag E version) (\<lambda>prev.
      bind_io (list_merged_prs E
                 (case prev of None \<Rightarrow> version @ lit ''~100'' | Some p \<Rightarrow> p) version)
        (\<lambda>merged_prs.
      bind_io (collect_jira_ids E gh (arg_jira_project_key a) merged_prs []) (\<lambda>ids.
      lift_io (Inr (j, ids)))))))"

text \<open>Lines 196 to 202: de-duplication, the version, the attachments.\<close>

definition release :: "env \<Rightarrow> args \<Rightarrow> str \<Rightarrow> unit io" where
  "release E a version =
     bind_io (gather E a version) (\<lambda>(j, ids).
     bind_io (assert_version E j version) (\<lambda>u.
     attach_all E j version (list_of_set (hash_seed E) ids)))"

definition main :: "env \<Rightarrow> args \<Rightarrow> unit io" where
  "main E a =
     bind_io (fetch_and_resolve E a) (\<lambda>version.
     if re_match release_pattern version then release E a version else lift_io (Inr ()))"

text \<open>The requests among the calls of a log.\<close>

fun http_calls :: "call list \<Rightarrow> request list" where
  "http_calls [] = []"
| "http_calls (Subprocess argv # cs) = http_calls cs"
| "http_calls (UrlOpen req # cs) = req # http_calls cs"

section \<open>Example runs\<close>

text \<open>
  The worlds of the examples accept a URL when one or more characters other than
  \<^verbatim>\<open>/\<close> and \<^verbatim>\<open>:\<close> stand before its first colon. That is how \<^verbatim>\<open>urllib\<close> looks
  for the type of a URL such as those of the examples (no blanks or angle brackets
  around it, no fragment).
\<close>

definition url_type_ok :: "str \<Rightarrow> bool" where
  "url_type_ok url =
     (let scheme = takeWhile (\<lambda>c. c \<noteq> of_char (CHR ''/'') \<and> c \<noteq> of_char (CHR '':'')) url in
      scheme \<noteq> [] \<and>
      (case drop (length scheme) url of [] \<Rightarrow> False | c # r \<Rightarrow> c = of_char (CHR '':'')))"

text \<open>A repository whose every command prints \<open>out\<close>, with no network.\<close>

definition git_env :: "bytes \<Rightarrow> env" where
  "git_env out =
     \<lparr>proc = (\<lambda>tr argv. Exit0 out), http = (\<lambda>tr req. URLFailure),
      today = lit ''2020-05-01'', hash_seed = 0,
      accepts_url = url_type_ok, re_other = (\<lambda>pattern. Inl ReError)\<rparr>"

text \<open>A log of two commits: the second names pull request 10 again.\<close>

definition example_log :: "bytes" where
  "example_log =
     ''commit 1a2b\<newline>    [ABC-5] Implements it (#10)\<newline>commit 3c4d\<newline>    Revert #10 [x] # (#11)\<newline>''"

text \<open>A log of one commit whose message has a \<^verbatim>\<open>#\<close> and no \<^verbatim>\<open>]\<close>.\<close>

definition plain_log :: "bytes" where
  "plain_log = ''commit 9f8e\<newline>    Fix crash (#12)\<newline>''"

text \<open>A code host that answers every request with the pull request \<open>data\<close>.\<close>

definition pr_env :: "json \<Rightarrow> env" where
  "pr_env data =
     \<lparr>proc = (\<lambda>tr argv. NotStarted), http = (\<lambda>tr req. Response (Parsed data)),
      today = lit ''2020-05-01'', hash_seed = 0,
      accepts_url = url_type_ok, re_other = (\<lambda>pattern. Inl ReError)\<rparr>"

definition example_github :: "github" where
  "example_github =
     \<lparr>token = lit ''t0ken'', repo_owner = lit ''acme'', repo_name = lit ''app''\<rparr>"

definition example_pr :: "json" where
  "example_pr =
     JDict [(lit ''title'', JStr (lit ''Fix ABC-123 and ABC-124'')),
            (lit ''head'', JDict [(lit ''ref'', JStr (lit ''abc-125-lowercase''))])]"

definition example_pull_request :: "request" where
  "example_pull_request =
     \<lparr>req_method = GET, req_url = lit ''https://api.github.com/repos/acme/app/pulls/10'',
      req_headers = [(lit ''Authorization'', lit ''Basic dDBrZW46'')], req_data = None\<rparr>"

text \<open>A pull request whose title names ABC-1 and a reference written with a dot.\<close>

definition dotted_pr :: "json" where
  "dotted_pr =
     JDict [(lit ''title'', JStr (lit ''ABC-1 A.C-2'')),
            (lit ''head'', JDict [(lit ''ref'', JStr (lit ''main''))])]"

text \<open>A tracker that answers every request with \<open>reply\<close>.\<close>

definition http_env :: "http_reply \<Rightarrow> env" where
  "http_env reply =
     \<lparr>proc = (\<lambda>tr argv. NotStarted), http = (\<lambda>tr req. reply),
      today = lit ''2020-05-01'', hash_seed = 0,
      accepts_url = url_type_ok, re_other = (\<lambda>pattern. Inl ReError)\<rparr>"

definition example_project :: "json" where
  "example_project = JDict [(lit ''id'', JStr (lit ''10000'')), (lit ''key'', JStr (lit ''ABC''))]"

text \<open>The client after \<^verbatim>\<open>load_project\<close> has stored \<open>example_project\<close>.\<close>

definition example_jira :: "jira" where
  "example_jira =
     \<lparr>project_key = lit ''ABC'', email = lit ''bot@acme.io'', api_key = lit ''s3cret'',
      project = example_project, jira_url = lit ''https://acme.atlassian.net''\<rparr>"

definition example_headers :: "(str \<times> str) list" where
  "example_headers =
     [(lit ''Authorization'', lit ''Basic Ym90QGFjbWUuaW86czNjcmV0''),
      (lit ''Accept'', lit ''application/json''),
      (lit ''Content-Type'', lit ''application/json'')]"

definition example_project_request :: "request" where
  "example_project_request =
     \<lparr>req_method = GET, req_url = lit ''https://acme.atlassian.net/rest/api/2/project/ABC'',
      req_headers = example_headers, req_data = None\<rparr>"

definition example_version_request :: "request" where
  "example_version_request =
     \<lparr>req_method = POST, req_url = lit ''https://acme.atlassian.net/rest/api/2/version'',
      req_headers = example_headers,
      req_data = Some (JDict [(lit ''archived'', JBool False),
                              (lit ''releaseDate'', JStr (lit ''2020-05-01'')),
                              (lit ''name'', JStr (lit ''v1.2.3'')),
                              (lit ''projectId'', JStr (lit ''10000'')),
                              (lit ''released'', JBool True)])\<rparr>"

text \<open>The body of a reply that refuses the request for a reason other than the name.\<close>

definition permission_error :: "json" where
  "permission_error =
     JDict [(lit ''errorMessages'', JList [JStr (lit ''You do not have permission.'')]),
            (lit ''errors'', JDict [])]"

text \<open>The command line of the examples: the version is set by \<open>v\<close>.\<close>

definition example_args :: "str option \<Rightarrow> args" where
  "example_args v =
     \<lparr>arg_jira_project_key = lit ''ABC'', arg_github_token = lit ''t0ken'',
      arg_github_repo_owner = lit ''acme'', arg_github_repo_name = lit ''app'',
      arg_jira_email = lit ''bot@acme.io'', arg_jira_api_key = lit ''s3cret'',
      arg_jira_url = lit ''https://acme.atlassian.net'', arg_version = v\<rparr>"

definition example_issue_request :: "str \<Rightarrow> request" where
  "example_issue_request issue_id =
     \<lparr>req_method = PUT,
      req_url = lit ''https://acme.atlassian.net/rest/api/2/issue/'' @ issue_id,
      req_headers = example_headers,
      req_data = Some (JDict [(lit ''update'',
        JDict [(lit ''fixVersions'',
          JList [JDict [(lit ''add'', JDict [(lit ''name'', JStr (lit ''v1.2.3''))])]])])])\<rparr>"

definition example_pull :: "str \<Rightarrow> request" where
  "example_pull pr_id =
     \<lparr>req_method = GET, req_url = lit ''https://api.github.com/repos/acme/app/pulls/'' @ pr_id,
      req_headers = [(lit ''Authorization'', lit ''Basic dDBrZW46'')], req_data = None\<rparr>"

text \<open>
  A release: the tags, the log between the two newest release tags with pull requests
  10 and 11, and the two pull requests. Pull request 10 names ABC-5 in its title and in
  its branch.
\<close>

definition release_tags :: "bytes" where
  "release_tags = ''v1.2.3\<newline>v1.2.3-rc1\<newline>v1.2.2\<newline>''"

definition release_log :: "bytes" where
  "release_log =
     ''commit 1a2b\<newline>    [ABC-5] Implements it (#10)\<newline>commit 3c4d\<newline>    [ABC-7] Tidy up (#11)\<newline>''"

definition pr10 :: "json" where
  "pr10 =
     JDict [(lit ''title'', JStr (lit ''Implements ABC-5'')),
            (lit ''head'', JDict [(lit ''ref'', JStr (lit ''feature/ABC-5-impl''))])]"

definition pr11 :: "json" where
  "pr11 =
     JDict [(lit ''title'', JStr (lit ''ABC-7: tidy up'')),
            (lit ''head'', JDict [(lit ''ref'', JStr (lit ''feature/ABC-6-thing''))])]"

text \<open>
  The world of that release: the hash seed is \<open>seed\<close>, and the tracker does not know the
  issue \<open>missing\<close>.
\<close>

definition release_env :: "nat \<Rightarrow> str \<Rightarrow> env" where
  "release_env seed missing =
     \<lparr>proc = (\<lambda>tr argv.
        if argv = git_tag_argv then Exit0 release_tags
        else if argv = git_log_argv (lit ''v1.2.2'') (lit ''v1.2.3'') then Exit0 release_log
        else Exit0 []),
      http = (\<lambda>tr req.
        if req_url req = req_url (example_pull (lit ''10'')) then Response (Parsed pr10)
        else if req_url req = req_url (example_pull (lit ''11'')) then Response (Parsed pr11)
        else if req_url req = req_url (example_issue_request missing)
        then HTTPFailure 404 NotJSON
        else Response (Parsed example_project)),
      today = lit ''2020-05-01'', hash_seed = seed,
      accepts_url = url_type_ok, re_other = (\<lambda>pattern. Inl ReError)\<rparr>"

text \<open>The calls of that release up to the last pull request lookup.\<close>

definition release_prefix :: "call list" where
  "release_prefix =
     [Subprocess [lit ''git'', lit ''fetch'', lit ''--unshallow''],
      Subprocess [lit ''git'', lit ''fetch'', lit ''--tags''],
      UrlOpen example_project_request,
      Subprocess git_tag_argv,
      Subprocess (git_log_argv (lit ''v1.2.2'') (lit ''v1.2.3'')),
      UrlOpen (example_pull (lit ''10'')),
      UrlOpen (example_pull (lit ''11''))]"

text \<open>A repository in which every git command fails, with no network.\<close>

definition failing_git_env :: "env" where
  "failing_git_env =
     \<lparr>proc = (\<lambda>tr argv. NonZeroExit), http = (\<lambda>tr req. URLFailure),
      today = lit ''2020-05-01'', hash_seed = 0,
      accepts_url = url_type_ok, re_other = (\<lambda>pattern. Inl ReError)\<rparr>"

text \<open>A repository without tags and without commits that name a pull request.\<close>

definition untagged_env :: "env" where
  "untagged_env =
     \<lparr>proc = (\<lambda>tr argv. Exit0 []), http = (\<lambda>tr req. Response (Parsed example_project)),
      today = lit ''2020-05-01'', hash_seed = 0,
      accepts_url = url_type_ok, re_other = (\<lambda>pattern. Inl ReError)\<rparr>"

section \<open>Properties\<close>

subsection \<open>Tag filtering\<close>

lemma find_previous_version_tag_unfold:
  "find_previous_version_tag E version tr =
     (case proc E tr git_tag_argv of
        Exit0 out \<Rightarrow>
          (case candidate_tags out of
             Inl e \<Rightarrow> (Inl e, tr @ [Subprocess git_tag_argv])
           | Inr tags \<Rightarrow> (previous_tag tags version, tr @ [Subprocess git_tag_argv]))
      | NonZeroExit \<Rightarrow> (Inl CalledProcessError, tr @ [Subprocess git_tag_argv])
      | NotStarted \<Rightarrow> (Inl OSError, tr @ [Subprocess git_tag_argv]))"
  by (simp add: find_previous_version_tag_def bind_io_def lift_io_def check_output_def
      split: proc_reply.splits sum.splits)

text \<open>
  C8. Whatever the tag query prints, the sequence that
  \<^verbatim>\<open>find_previous_version_tag\<close> searches for the target version holds no tag with a
  hyphen: when the query exits with output \<open>out\<close> and its lines decode, the search runs
  on \<open>candidate_tags out\<close>, and no element of that list contains \<^verbatim>\<open>-\<close>.
\<close>

theorem candidate_tags_no_hyphen:
  assumes "proc E tr git_tag_argv = Exit0 out"
    and "candidate_tags out = Inr tags"
  shows "(\<forall>t \<in> set tags. hyphen \<notin> set t) \<and>
         find_previous_version_tag E version tr =
           (previous_tag tags version, tr @ [Subprocess git_tag_argv])"
proof -
  from assms(2) have "\<forall>t \<in> set tags. hyphen \<notin> set t"
    by (auto simp: candidate_tags_def split: sum.splits)
  moreover from assms have "find_previous_version_tag E version tr =
      (previous_tag tags version, tr @ [Subprocess git_tag_argv])"
    by (simp add: find_previous_version_tag_unfold)
  ultimately show ?thesis by simp
qed

theorem candidate_tags_no_hyphen_witness:
  "candidate_tags ''v1.0.0\<newline>v1.0.0-beta\<newline>v0.9.0\<newline>'' = Inr [lit ''v1.0.0'', lit ''v0.9.0''] \<and>
   hyphen \<notin> set (lit ''v1.0.0'') \<and> hyphen \<notin> set (lit ''v0.9.0'') \<and>
   find_previous_version_tag (git_env ''v1.0.0\<newline>v1.0.0-beta\<newline>v0.9.0\<newline>'')
       (lit ''v1.0.0'') [] =
     (Inr (Some (lit ''v0.9.0'')), [Subprocess git_tag_argv])"
proof -
  have p: "proc (git_env ''v1.0.0\<newline>v1.0.0-beta\<newline>v0.9.0\<newline>'') [] git_tag_argv =
      Exit0 ''v1.0.0\<newline>v1.0.0-beta\<newline>v0.9.0\<newline>''"
    by (simp add: git_env_def)
  have c: "candidate_tags ''v1.0.0\<newline>v1.0.0-beta\<newline>v0.9.0\<newline>'' =
      Inr [lit ''v1.0.0'', lit ''v0.9.0'']"
    by (simp add: candidate_tags_def strip_def whitespace_def decode_def cont_def hyphen_def
        lit_def)
  have n: "previous_tag [lit ''v1.0.0'', lit ''v0.9.0''] (lit ''v1.0.0'') =
      Inr (Some (lit ''v0.9.0''))"
    by (simp add: previous_tag_def lit_def)
  show ?thesis
    using candidate_tags_no_hyphen [OF p c, of "lit ''v1.0.0''"] c n by simp
qed

subsection \<open>The previous tag\<close>

lemma index_of_first: "x \<notin> set pre \<Longrightarrow> index_of (pre @ x # rest) x = Inr (length pre)"
  by (induction pre) auto

text \<open>A version that is not among the tags has no previous tag.\<close>

lemma previous_tag_absent:
  "version \<notin> set tags \<Longrightarrow> previous_tag tags version = Inr None"
  by (simp add: previous_tag_def)

text \<open>A version with an older tag after its first occurrence gets that tag.\<close>

lemma previous_tag_next:
  "version \<notin> set pre \<Longrightarrow>
   previous_tag (pre @ version # older # rest) version = Inr (Some older)"
  by (simp add: previous_tag_def index_of_first nth_append)

text \<open>
  C2. The claim holds for a version that is absent (\<open>previous_tag_absent\<close>) and for one
  that has an older tag (\<open>previous_tag_next\<close>). For the oldest tag it fails: the test
  \<^verbatim>\<open>len(tags) <= i\<close> is never true for an index that \<^verbatim>\<open>tags.index\<close> returned, so
  \<^verbatim>\<open>tags[i + 1]\<close> is evaluated one past the end and raises \<^verbatim>\<open>IndexError\<close> instead
  of returning \<^verbatim>\<open>None\<close>.
\<close>

theorem previous_tag_oldest_raises:
  "version \<notin> set pre \<Longrightarrow> previous_tag (pre @ [version]) version = Inl IndexError"
  by (simp add: previous_tag_def index_of_first)

theorem previous_tag_oldest_raises_witness:
  "lit ''v1.0.0'' \<notin> set [lit ''v2.0.0'', lit ''v1.5.0''] \<and>
   candidate_tags ''v2.0.0\<newline>v1.5.0\<newline>v1.0.0\<newline>'' =
     Inr ([lit ''v2.0.0'', lit ''v1.5.0''] @ [lit ''v1.0.0'']) \<and>
   find_previous_version_tag (git_env ''v2.0.0\<newline>v1.5.0\<newline>v1.0.0\<newline>'')
       (lit ''v1.0.0'') [] =
     (Inl IndexError, [Subprocess git_tag_argv])"
proof -
  have h: "lit ''v1.0.0'' \<notin> set [lit ''v2.0.0'', lit ''v1.5.0'']"
    by (simp add: lit_def)
  have c: "candidate_tags ''v2.0.0\<newline>v1.5.0\<newline>v1.0.0\<newline>'' =
      Inr ([lit ''v2.0.0'', lit ''v1.5.0''] @ [lit ''v1.0.0''])"
    by (simp add: candidate_tags_def strip_def whitespace_def decode_def cont_def hyphen_def
        lit_def)
  have p: "proc (git_env ''v2.0.0\<newline>v1.5.0\<newline>v1.0.0\<newline>'') [] git_tag_argv =
      Exit0 ''v2.0.0\<newline>v1.5.0\<newline>v1.0.0\<newline>''"
    by (simp add: git_env_def)
  show ?thesis
    using h c previous_tag_oldest_raises [OF h]
    by (simp add: find_previous_version_tag_unfold p)
qed

subsection \<open>The matcher\<close>

lemma match_digits_only:
  "match_here [DigitPlus] s =
     (if takeWhile isdecimal s = [] then None else Some (length (takeWhile isdecimal s)))"
  by (cases "length (takeWhile isdecimal s)") auto

lemma map_option_add_0: "map_option ((+) (0::nat)) m = m"
  by (cases m) auto

lemma match_literals:
  "match_here (map Lit k @ p) s =
     (if take (length k) s = k
      then map_option ((+) (length k)) (match_here p (drop (length k) s)) else None)"
proof (induction k arbitrary: s)
  case Nil
  show ?case by (simp add: map_option_add_0)
next
  case (Cons a k)
  show ?case
  proof (cases s)
    case Nil
    then show ?thesis by simp
  next
    case (Cons x r)
    then show ?thesis
      by (cases "match_here p (drop (length k) r)") (auto simp: Cons.IH)
  qed
qed

lemma match_literals_digits:
  "match_here (map Lit k @ [DigitPlus]) s =
     (if take (length k) s = k \<and> takeWhile isdecimal (drop (length k) s) \<noteq> []
      then Some (length k + length (takeWhile isdecimal (drop (length k) s))) else None)"
  by (simp only: match_literals match_digits_only) (auto split: if_splits)

lemma take_match_literals_digits:
  assumes "match_here (map Lit k @ [DigitPlus]) s = Some n"
  shows "\<exists>ds. take n s = k @ ds \<and> ds \<noteq> [] \<and> list_all isdecimal ds"
proof -
  let ?ds = "takeWhile isdecimal (drop (length k) s)"
  from assms have k: "take (length k) s = k" and ne: "?ds \<noteq> []"
    and n: "n = length k + length ?ds"
    by (auto simp: match_literals_digits split: if_splits)
  have "take n s = take (length k) s @ take (length ?ds) (drop (length k) s)"
    by (simp add: n take_add)
  also have "take (length ?ds) (drop (length k) s) = ?ds"
    by (simp add: takeWhile_eq_take [symmetric])
  finally have "take n s = k @ ?ds" by (simp add: k)
  moreover have "list_all isdecimal ?ds"
    by (auto simp: list_all_iff dest: set_takeWhileD)
  ultimately show ?thesis using ne by blast
qed

text \<open>Every element of \<open>findall p s\<close> is a match of \<open>p\<close> at some position of \<open>s\<close>.\<close>

lemma findall_elem:
  "r \<in> set (findall p s) \<Longrightarrow>
   \<exists>a t n. s = a @ t \<and> match_here p t = Some n \<and> r = take n t"
proof (induction p s rule: findall.induct)
  case (1 p)
  then obtain n where "match_here p [] = Some n" and "r = []"
    by (cases "match_here p []") auto
  then have "[] = [] @ ([] :: nat list) \<and> match_here p [] = Some n \<and> r = take n []"
    by simp
  then show ?case by blast
next
  case (2 p c s)
  show ?case
  proof (cases "match_here p (c # s)")
    case None
    with 2 obtain a t n where "s = a @ t" "match_here p t = Some n" "r = take n t"
      by auto
    then have "c # s = (c # a) @ t" by simp
    then show ?thesis using \<open>match_here p t = Some n\<close> \<open>r = take n t\<close> by blast
  next
    case (Some n)
    show ?thesis
    proof (cases "r = take n (c # s)")
      case True
      then show ?thesis using Some by (metis append_Nil)
    next
      case False
      with 2 Some have "r \<in> set (findall p (drop (n - 1) s))" by auto
      with 2(2) [OF Some] obtain a t m where
        "drop (n - 1) s = a @ t" "match_here p t = Some m" "r = take m t" by blast
      moreover have "c # s = (c # take (n - 1) s) @ drop (n - 1) s" by simp
      ultimately have "c # s = (c # take (n - 1) s @ a) @ t" by simp
      then show ?thesis using \<open>match_here p t = Some m\<close> \<open>r = take m t\<close> by blast
    qed
  qed
qed

subsection \<open>Merged pull requests\<close>

lemma match_hash_pattern:
  "match_here hash_pattern (c # s) =
     (if c = hash \<and> takeWhile isdecimal s \<noteq> []
      then Some (Suc (length (takeWhile isdecimal s))) else None)"
  unfolding hash_pattern_def by (simp only: match_here.simps(2) match_digits_only list.case) auto

lemma match_hash_pattern_Nil: "match_here hash_pattern [] = None"
  by (simp add: hash_pattern_def)

text \<open>The matches of \<^verbatim>\<open>#[\d]+\<close> are the tokens of the specification's wording.\<close>

lemma findall_hash_pattern: "findall hash_pattern s = map ((#) hash) (hash_numbers s)"
proof (induction s rule: hash_numbers.induct)
  case 1
  show ?case by (simp add: match_hash_pattern_Nil)
next
  case (2 c s)
  show ?case
  proof (cases "c = hash \<and> takeWhile isdecimal s \<noteq> []")
    case True
    have "take (length (takeWhile isdecimal s)) s = takeWhile isdecimal s"
      by (simp add: takeWhile_eq_take [symmetric])
    moreover have "drop (length (takeWhile isdecimal s)) s = dropWhile isdecimal s"
      by (simp add: dropWhile_eq_drop [symmetric])
    ultimately show ?thesis using True 2(1)
      by (simp add: match_hash_pattern)
  next
    case False
    with 2(2) show ?thesis by (auto simp: match_hash_pattern)
  qed
qed

lemma hash_not_decimal: "\<not> isdecimal hash"
  by (simp add: isdecimal_def decimal_ranges_def hash_def)

lemma split_on_absent: "x \<notin> set ys \<Longrightarrow> split_on x ys = [ys]"
  by (induction ys) auto

lemma after_hash_digits: "list_all isdecimal ds \<Longrightarrow> after_hash (hash # ds) = Inr ds"
proof -
  assume "list_all isdecimal ds"
  then have "hash \<notin> set ds" using hash_not_decimal by (auto simp: list_all_iff)
  then show ?thesis by (simp add: after_hash_def split_on_absent)
qed

lemma hash_numbers_digits:
  "n \<in> set (hash_numbers s) \<Longrightarrow> n \<noteq> [] \<and> list_all isdecimal n"
proof (induction s rule: hash_numbers.induct)
  case 1
  then show ?case by simp
next
  case (2 c s)
  then show ?case
    by (auto simp: list_all_iff split: if_splits dest: set_takeWhileD)
qed

lemma traverse_after_hash:
  "list_all (list_all isdecimal) ns \<Longrightarrow> traverse after_hash (map ((#) hash) ns) = Inr ns"
  by (induction ns) (auto simp: after_hash_digits)

lemma list_merged_prs_unfold:
  "list_merged_prs E prev version tr =
     (case proc E tr (git_log_argv prev version) of
        Exit0 out \<Rightarrow>
          (case decode (strip out) of
             Inl e \<Rightarrow> (Inl e, tr @ [Subprocess (git_log_argv prev version)])
           | Inr logs \<Rightarrow>
               (traverse after_hash (findall hash_pattern logs),
                tr @ [Subprocess (git_log_argv prev version)]))
      | NonZeroExit \<Rightarrow> (Inl CalledProcessError, tr @ [Subprocess (git_log_argv prev version)])
      | NotStarted \<Rightarrow> (Inl OSError, tr @ [Subprocess (git_log_argv prev version)]))"
  by (simp add: list_merged_prs_def bind_io_def lift_io_def check_output_def
      split: proc_reply.splits sum.splits)

lemma list_merged_prs_result:
  assumes "proc E tr (git_log_argv prev version) = Exit0 out"
    and "decode (strip out) = Inr logs"
  shows "list_merged_prs E prev version tr =
           (Inr (hash_numbers logs), tr @ [Subprocess (git_log_argv prev version)])"
proof -
  have "list_all (list_all isdecimal) (hash_numbers logs)"
    using hash_numbers_digits by (auto simp: list_all_iff)
  then have "traverse after_hash (findall hash_pattern logs) = Inr (hash_numbers logs)"
    by (simp add: findall_hash_pattern traverse_after_hash)
  with assms show ?thesis by (simp add: list_merged_prs_unfold)
qed

text \<open>
  C3, as amended. \<^verbatim>\<open>list_merged_prs\<close> runs the one command
  \<^verbatim>\<open>git log <prev>...<version> --grep # --grep ]\<close> and filters nothing itself: when
  the command exits with a log that decodes to \<open>logs\<close>, the result is the numeric
  parts of all \<^verbatim>\<open>#<digits>\<close> tokens of \<open>logs\<close>, in the order of the log and with
  repetitions kept; each numeric part is a non-empty run of digits.
\<close>

theorem list_merged_prs_numbers:
  assumes "proc E tr (git_log_argv prev version) = Exit0 out"
    and "decode (strip out) = Inr logs"
  shows "list_merged_prs E prev version tr =
           (Inr (hash_numbers logs), tr @ [Subprocess (git_log_argv prev version)]) \<and>
         (\<forall>n \<in> set (hash_numbers logs). n \<noteq> [] \<and> list_all isdecimal n)"
  using list_merged_prs_result [OF assms] hash_numbers_digits by simp

theorem list_merged_prs_numbers_witness:
  "decode (strip example_log) = Inr (lit (butlast example_log)) \<and>
   list_merged_prs (git_env example_log) (lit ''v1.0.0'') (lit ''v1.1.0'') [] =
     (Inr [lit ''10'', lit ''10'', lit ''11''],
      [Subprocess (git_log_argv (lit ''v1.0.0'') (lit ''v1.1.0''))])"
proof -
  have p: "proc (git_env example_log) [] (git_log_argv (lit ''v1.0.0'') (lit ''v1.1.0'')) =
      Exit0 example_log"
    by (simp add: git_env_def)
  have d: "decode (strip example_log) = Inr (lit (butlast example_log))"
    by (simp add: example_log_def strip_def whitespace_def decode_def cont_def lit_def)
  have n: "hash_numbers (lit (butlast example_log)) = [lit ''10'', lit ''10'', lit ''11'']"
    by (simp add: example_log_def lit_def hash_def isdecimal_def decimal_ranges_def)
  from list_merged_prs_numbers [OF p d] have
    "list_merged_prs (git_env example_log) (lit ''v1.0.0'') (lit ''v1.1.0'') [] =
       (Inr (hash_numbers (lit (butlast example_log))),
        [] @ [Subprocess (git_log_argv (lit ''v1.0.0'') (lit ''v1.1.0''))])"
    by (rule conjunct1)
  then show ?thesis using d by (simp only: n append_Nil simp_thms)
qed

text \<open>
  C3 as stated fails: the script does not restrict the log to messages with both a
  \<^verbatim>\<open>#\<close> and a \<^verbatim>\<open>]\<close>. Two \<^verbatim>\<open>--grep\<close> options without \<^verbatim>\<open>--all-match\<close> make git
  list a commit whose message matches either pattern; for such a log, with a \<^verbatim>\<open>#\<close>
  and no \<^verbatim>\<open>]\<close> anywhere, the pull request number is returned all the same.
\<close>

theorem list_merged_prs_unfiltered_counterexample:
  "list_merged_prs (git_env plain_log) (lit ''v1.0.0'') (lit ''v1.1.0'') [] =
     (Inr [lit ''12''], [Subprocess (git_log_argv (lit ''v1.0.0'') (lit ''v1.1.0''))]) \<and>
   of_char (CHR '']'') \<notin> set (lit (butlast plain_log)) \<and>
   decode (strip plain_log) = Inr (lit (butlast plain_log))"
proof -
  have p: "proc (git_env plain_log) [] (git_log_argv (lit ''v1.0.0'') (lit ''v1.1.0'')) =
      Exit0 plain_log"
    by (simp add: git_env_def)
  have d: "decode (strip plain_log) = Inr (lit (butlast plain_log))"
    by (simp add: plain_log_def strip_def whitespace_def decode_def cont_def lit_def)
  have f: "findall hash_pattern (lit (butlast plain_log)) = [lit ''#12'']"
    by (simp add: plain_log_def lit_def hash_pattern_def hash_def isdecimal_def
        decimal_ranges_def)
  have a: "after_hash (lit ''#12'') = Inr (lit ''12'')"
    by (simp add: after_hash_def lit_def hash_def)
  have b: "of_char (CHR '']'') \<notin> set (lit (butlast plain_log))"
    by (simp add: plain_log_def lit_def)
  have "list_merged_prs (git_env plain_log) (lit ''v1.0.0'') (lit ''v1.1.0'') [] =
     (Inr [lit ''12''], [Subprocess (git_log_argv (lit ''v1.0.0'') (lit ''v1.1.0''))])"
    by (simp add: list_merged_prs_unfold p d f a)
  then show ?thesis using b d by simp
qed

subsection \<open>Requests\<close>

lemma lit_append: "lit a @ lit b = lit (a @ b)"
  by (simp add: lit_def)

lemma encode_ascii_lit:
  "list_all (\<lambda>c. (of_char c :: nat) < 128) cs \<Longrightarrow> encode_ascii (lit cs) = Inr cs"
  by (simp add: encode_ascii_def lit_def list_all_iff comp_def)

lemma b64encode_examples:
  "b64encode ''bot@acme.io:s3cret'' = ''Ym90QGFjbWUuaW86czNjcmV0'' \<and>
   b64encode ''ab'' = ''YWI='' \<and> b64encode ''a'' = ''YQ==''"
  by (simp add: b64_char_def b64_alphabet_def)

lemma urlopen_Response:
  "http E tr req = Response b \<Longrightarrow> urlopen E req tr = (Inr b, tr @ [UrlOpen req])"
  by (simp add: urlopen_def)

lemma urlopen_HTTPFailure:
  "http E tr req = HTTPFailure code b \<Longrightarrow>
   urlopen E req tr = (Inl (HTTPError code b), tr @ [UrlOpen req])"
  by (simp add: urlopen_def)

subsection \<open>Issue references of a pull request\<close>

lemma findall_key_shape:
  assumes "i \<in> set (findall (map Lit key @ [Lit hyphen, DigitPlus]) s)"
  shows "\<exists>a b ds. s = a @ i @ b \<and> i = key @ hyphen # ds \<and> ds \<noteq> [] \<and> list_all isdecimal ds"
proof -
  have p: "map Lit key @ [Lit hyphen, DigitPlus] = map Lit (key @ [hyphen]) @ [DigitPlus]"
    by simp
  from findall_elem [OF assms] obtain a t n where
    s: "s = a @ t" and m: "match_here (map Lit (key @ [hyphen]) @ [DigitPlus]) t = Some n"
    and i: "i = take n t" unfolding p by blast
  from take_match_literals_digits [OF m] obtain ds where
    "take n t = (key @ [hyphen]) @ ds" "ds \<noteq> []" "list_all isdecimal ds" by blast
  moreover have "s = a @ take n t @ drop n t" by (simp add: s)
  ultimately show ?thesis using i by auto
qed

lemma key_items_literal:
  "\<not> list_ex (\<lambda>c. c \<in> set special_chars) key \<Longrightarrow> key_items key = Some (map Lit key)"
proof (induction key)
  case Nil
  show ?case by simp
next
  case (Cons c cs)
  have "of_char (CHR ''.'') \<in> set special_chars"
    by (simp add: special_chars_def lit_def)
  with Cons show ?case by (auto simp: key_item_def)
qed

lemma get_jira_id_from_pr_result:
  assumes "key_items key = Some items"
    and "pull_request E gh pr_id = Inr req"
    and "http E tr req = Response (Parsed data)"
    and "getitem data (lit ''title'') = Inr (JStr title)"
    and "getitem data (lit ''head'') = Inr head"
    and "getitem head (lit ''ref'') = Inr (JStr ref)"
  shows "get_jira_id_from_pr E gh key pr_id tr =
           (Inr (findall (items @ [Lit hyphen, DigitPlus]) title @
                 findall (items @ [Lit hyphen, DigitPlus]) ref), tr @ [UrlOpen req])"
  using assms
  by (simp add: get_jira_id_from_pr_def bind_io_def lift_io_def urlopen_Response loads_def
      findall_key_def key_pattern_def)

text \<open>
  C6, as amended. For a project key that holds no special character of \<^verbatim>\<open>re\<close>, and
  a pull request whose title and source branch are \<^verbatim>\<open>str\<close> values,
  \<^verbatim>\<open>get_jira_id_from_pr\<close> returns the matches in the title followed by the matches
  in the branch name. Every match is a part of the text it was found in and consists
  of the project key exactly as given (the comparison is by code point, so case
  matters), a hyphen and a non-empty run of digits.
\<close>

theorem get_jira_id_from_pr_refs:
  assumes "\<not> list_ex (\<lambda>c. c \<in> set special_chars) key"
    and "pull_request E gh pr_id = Inr req"
    and "http E tr req = Response (Parsed data)"
    and "getitem data (lit ''title'') = Inr (JStr title)"
    and "getitem data (lit ''head'') = Inr head"
    and "getitem head (lit ''ref'') = Inr (JStr ref)"
  shows "get_jira_id_from_pr E gh key pr_id tr =
           (Inr (findall (map Lit key @ [Lit hyphen, DigitPlus]) title @
                 findall (map Lit key @ [Lit hyphen, DigitPlus]) ref), tr @ [UrlOpen req]) \<and>
         (\<forall>i \<in> set (findall (map Lit key @ [Lit hyphen, DigitPlus]) title). \<exists>a b ds.
            title = a @ i @ b \<and> i = key @ hyphen # ds \<and> ds \<noteq> [] \<and> list_all isdecimal ds) \<and>
         (\<forall>i \<in> set (findall (map Lit key @ [Lit hyphen, DigitPlus]) ref). \<exists>a b ds.
            ref = a @ i @ b \<and> i = key @ hyphen # ds \<and> ds \<noteq> [] \<and> list_all isdecimal ds)"
  using get_jira_id_from_pr_result [OF key_items_literal [OF assms(1)] assms(2-6)]
    findall_key_shape by blast

theorem get_jira_id_from_pr_refs_witness:
  "\<not> list_ex (\<lambda>c. c \<in> set special_chars) (lit ''ABC'') \<and>
   get_jira_id_from_pr (pr_env example_pr) example_github (lit ''ABC'') (lit ''10'') [] =
     (Inr [lit ''ABC-123'', lit ''ABC-124''], [UrlOpen example_pull_request])"
proof -
  have k: "\<not> list_ex (\<lambda>c. c \<in> set special_chars) (lit ''ABC'')"
    by (simp add: special_chars_def lit_def)
  have m: "map Lit (lit ''ABC'') @ [Lit hyphen, DigitPlus] =
      [Lit 65, Lit 66, Lit 67, Lit hyphen, DigitPlus]"
    by (simp add: lit_def)
  have e: "encode_ascii (lit ''t0ken'' @ lit '':'') = Inr ''t0ken:''"
    by (simp add: lit_append encode_ascii_lit)
  have u: "accepts_url (pr_env example_pr) (lit ''https://api.github.com/repos/'' @ lit ''acme''
      @ lit ''/'' @ lit ''app'' @ lit ''/pulls/'' @ lit ''10'')"
    by (simp add: pr_env_def url_type_ok_def lit_def)
  have r: "pull_request (pr_env example_pr) example_github (lit ''10'') =
      Inr example_pull_request"
    by (simp add: pull_request_def example_github_def e u Request_def add_header_def
        basic_auth_def example_pull_request_def)
      (simp add: lit_def b64_char_def b64_alphabet_def)
  have h: "http (pr_env example_pr) [] example_pull_request = Response (Parsed example_pr)"
    by (simp add: pr_env_def)
  have t: "getitem example_pr (lit ''title'') = Inr (JStr (lit ''Fix ABC-123 and ABC-124''))"
    by (simp add: example_pr_def lit_def)
  have hd: "getitem example_pr (lit ''head'') =
      Inr (JDict [(lit ''ref'', JStr (lit ''abc-125-lowercase''))])"
    by (simp add: example_pr_def lit_def)
  have rf: "getitem (JDict [(lit ''ref'', JStr (lit ''abc-125-lowercase''))]) (lit ''ref'') =
      Inr (JStr (lit ''abc-125-lowercase''))"
    by simp
  have f1: "findall [Lit 65, Lit 66, Lit 67, Lit hyphen, DigitPlus]
      (lit ''Fix ABC-123 and ABC-124'') = [lit ''ABC-123'', lit ''ABC-124'']"
    by (simp add: lit_def hyphen_def isdecimal_def decimal_ranges_def)
  have f2: "findall [Lit 65, Lit 66, Lit 67, Lit hyphen, DigitPlus]
      (lit ''abc-125-lowercase'') = []"
    by (simp add: lit_def hyphen_def isdecimal_def decimal_ranges_def)
  from get_jira_id_from_pr_refs [OF k r h t hd rf, unfolded m] have
    "get_jira_id_from_pr (pr_env example_pr) example_github (lit ''ABC'') (lit ''10'') [] =
      (Inr (findall [Lit 65, Lit 66, Lit 67, Lit hyphen, DigitPlus]
              (lit ''Fix ABC-123 and ABC-124'') @
            findall [Lit 65, Lit 66, Lit 67, Lit hyphen, DigitPlus]
              (lit ''abc-125-lowercase'')),
       [] @ [UrlOpen example_pull_request])"
    by (rule conjunct1)
  then show ?thesis using k by (simp only: f1 f2 append_Nil append_Nil2 simp_thms)
qed

text \<open>
  C6 as stated fails for a project key with a special character of \<^verbatim>\<open>re\<close>: the key
  is not escaped, so the key \<^verbatim>\<open>A.C\<close> is a pattern in which the dot stands for any
  character. In the title \<^verbatim>\<open>ABC-1 A.C-2\<close> it finds \<^verbatim>\<open>ABC-1\<close>, which is not the
  key followed by a hyphen and digits.
\<close>

theorem get_jira_id_from_pr_dot_counterexample:
  "get_jira_id_from_pr (pr_env dotted_pr) example_github (lit ''A.C'') (lit ''10'') [] =
     (Inr [lit ''ABC-1'', lit ''A.C-2''], [UrlOpen example_pull_request]) \<and>
   \<not> (\<exists>ds. lit ''ABC-1'' = lit ''A.C'' @ hyphen # ds)"
proof -
  have k: "key_items (lit ''A.C'') = Some [Lit 65, AnyChar, Lit 67]"
    by (simp add: key_item_def special_chars_def lit_def)
  have e: "encode_ascii (lit ''t0ken'' @ lit '':'') = Inr ''t0ken:''"
    by (simp add: lit_append encode_ascii_lit)
  have u: "accepts_url (pr_env dotted_pr) (lit ''https://api.github.com/repos/'' @ lit ''acme''
      @ lit ''/'' @ lit ''app'' @ lit ''/pulls/'' @ lit ''10'')"
    by (simp add: pr_env_def url_type_ok_def lit_def)
  have r: "pull_request (pr_env dotted_pr) example_github (lit ''10'') =
      Inr example_pull_request"
    by (simp add: pull_request_def example_github_def e u Request_def add_header_def
        basic_auth_def example_pull_request_def)
      (simp add: lit_def b64_char_def b64_alphabet_def)
  have h: "http (pr_env dotted_pr) [] example_pull_request = Response (Parsed dotted_pr)"
    by (simp add: pr_env_def)
  have t: "getitem dotted_pr (lit ''title'') = Inr (JStr (lit ''ABC-1 A.C-2''))"
    by (simp add: dotted_pr_def lit_def)
  have hd: "getitem dotted_pr (lit ''head'') = Inr (JDict [(lit ''ref'', JStr (lit ''main''))])"
    by (simp add: dotted_pr_def lit_def)
  have rf: "getitem (JDict [(lit ''ref'', JStr (lit ''main''))]) (lit ''ref'') =
      Inr (JStr (lit ''main''))"
    by simp
  have f1: "findall [Lit 65, AnyChar, Lit 67, Lit hyphen, DigitPlus] (lit ''ABC-1 A.C-2'') =
      [lit ''ABC-1'', lit ''A.C-2'']"
    by (simp add: lit_def hyphen_def isdecimal_def decimal_ranges_def)
  have f2: "findall [Lit 65, AnyChar, Lit 67, Lit hyphen, DigitPlus] (lit ''main'') = []"
    by (simp add: lit_def hyphen_def isdecimal_def decimal_ranges_def)
  have n: "\<not> (\<exists>ds. lit ''ABC-1'' = lit ''A.C'' @ hyphen # ds)"
    by (simp add: lit_def)
  have "get_jira_id_from_pr (pr_env dotted_pr) example_github (lit ''A.C'') (lit ''10'') [] =
     (Inr [lit ''ABC-1'', lit ''A.C-2''], [UrlOpen example_pull_request])"
    using get_jira_id_from_pr_result [OF k r h t hd rf]
    by (simp only: f1 f2 append.simps)
  with n show ?thesis by simp
qed

subsection \<open>assert\_version\<close>

lemma assert_version_unfold:
  "assert_version E self version tr =
     (case version_request E self version of
        Inl e \<Rightarrow> (Inl e, tr)
      | Inr req \<Rightarrow>
          (case http E tr req of
             Response b \<Rightarrow>
               (case loads b of
                  Inl e \<Rightarrow> (Inl e, tr @ [UrlOpen req])
                | Inr v \<Rightarrow> (Inr (), tr @ [UrlOpen req]))
           | HTTPFailure code b \<Rightarrow> (on_http_error b, tr @ [UrlOpen req])
           | URLFailure \<Rightarrow> (Inl URLError, tr @ [UrlOpen req])))"
  by (simp add: assert_version_def bind_io_def lift_io_def urlopen_def
      split: sum.splits http_reply.splits)

lemma example_auth:
  assumes "email j = lit ''bot@acme.io''" and "api_key j = lit ''s3cret''"
  shows "add_jira_auth j req = Inr (req\<lparr>req_headers := req_headers req @ example_headers\<rparr>)"
proof -
  have e: "encode_ascii (lit ''bot@acme.io'' @ lit '':'' @ lit ''s3cret'') =
      Inr ''bot@acme.io:s3cret''"
    by (simp add: lit_append encode_ascii_lit)
  have b: "basic_auth (b64encode ''bot@acme.io:s3cret'') =
      lit ''Basic Ym90QGFjbWUuaW86czNjcmV0''"
    by (simp add: basic_auth_def lit_def b64_char_def b64_alphabet_def)
  have "add_jira_auth j req =
      Inr (add_header (lit ''Content-Type'') (lit ''application/json'')
            (add_header (lit ''Accept'') (lit ''application/json'')
              (add_header (lit ''Authorization'')
                (basic_auth (b64encode ''bot@acme.io:s3cret'')) req)))"
    by (simp add: add_jira_auth_def assms e)
  then show ?thesis by (simp only: b) (simp add: add_header_def example_headers_def)
qed

lemma example_version_request:
  assumes "today E = lit ''2020-05-01''" and "accepts_url E = url_type_ok"
  shows "version_request E example_jira (lit ''v1.2.3'') = Inr example_version_request"
proof -
  have g: "getitem (project example_jira) (lit ''id'') = Inr (JStr (lit ''10000''))"
    by (simp add: example_jira_def example_project_def lit_def)
  have u: "accepts_url E (jira_url example_jira @ lit ''/rest/api/2/version'')"
    by (simp add: assms(2) url_type_ok_def example_jira_def lit_def)
  have j: "jira_url example_jira @ lit ''/rest/api/2/version'' =
      lit ''https://acme.atlassian.net/rest/api/2/version''"
    by (simp add: example_jira_def lit_append)
  have a: "add_jira_auth example_jira req =
      Inr (req\<lparr>req_headers := req_headers req @ example_headers\<rparr>)" for req
    by (rule example_auth) (simp_all add: example_jira_def)
  show ?thesis
    by (simp add: version_request_def g Request_def u a assms(1))
       (simp add: j example_version_request_def)
qed

lemma http_env_today: "today (http_env reply) = lit ''2020-05-01''"
  by (simp add: http_env_def)

lemma http_env_accepts: "accepts_url (http_env reply) = url_type_ok"
  by (simp add: http_env_def)

text \<open>
  C1. The first half of the claim holds: an HTTP error whose body reports that the
  version exists is passed over. The second half fails. The handler (lines 72 to 78)
  has no \<^verbatim>\<open>else\<close> and no \<^verbatim>\<open>raise\<close>: the comparison with the message only decides
  whether a line is printed. So every HTTP error whose body is a JSON object, with
  \<^verbatim>\<open>errors\<close> absent or an object, is passed over as well, whatever it reports, and
  \<^verbatim>\<open>assert_version\<close> returns normally.
\<close>

theorem assert_version_swallows:
  assumes "version_request E self version = Inr req"
    and "http E tr req = HTTPFailure code (Parsed response)"
    and "dict_get response (lit ''errors'') (JDict []) = Inr (JDict errors)"
  shows "assert_version E self version tr = (Inr (), tr @ [UrlOpen req])"
  using assms by (simp add: assert_version_unfold on_http_error_def loads_def)

theorem assert_version_swallows_witness:
  "assert_version (http_env (HTTPFailure 401 (Parsed permission_error))) example_jira
       (lit ''v1.2.3'') [] =
     (Inr (), [UrlOpen example_version_request])"
proof -
  have h: "http (http_env (HTTPFailure 401 (Parsed permission_error))) []
        example_version_request =
      HTTPFailure 401 (Parsed permission_error)"
    by (simp add: http_env_def)
  have d: "dict_get permission_error (lit ''errors'') (JDict []) = Inr (JDict [])"
    by (simp add: permission_error_def lit_def)
  show ?thesis
    using assert_version_swallows [OF example_version_request [OF http_env_today http_env_accepts] h d] by simp
qed

text \<open>
  C10. An HTTP error whose body does not parse (the body is not a \<open>Parsed\<close> value:
  \<^verbatim>\<open>json.loads\<close> raises, or the bytes are not UTF-8) is not passed over: the
  decoding error raised inside the handler leaves \<^verbatim>\<open>assert_version\<close>, after the one
  request.
\<close>

theorem assert_version_not_json:
  assumes "version_request E self version = Inr req"
    and "http E tr req = HTTPFailure code b"
    and "\<forall>v. b \<noteq> Parsed v"
  shows "assert_version E self version tr =
           (Inl (if b = NotJSON then JSONDecodeError else UnicodeDecodeError),
            tr @ [UrlOpen req])"
  using assms by (cases b) (simp_all add: assert_version_unfold on_http_error_def loads_def)

theorem assert_version_not_json_witness:
  "assert_version (http_env (HTTPFailure 502 NotJSON)) example_jira (lit ''v1.2.3'') [] =
     (Inl JSONDecodeError, [UrlOpen example_version_request])"
proof -
  have h: "http (http_env (HTTPFailure 502 NotJSON)) [] example_version_request =
      HTTPFailure 502 NotJSON"
    by (simp add: http_env_def)
  have n: "\<forall>v. NotJSON \<noteq> Parsed v" by simp
  show ?thesis
    using assert_version_not_json [OF example_version_request [OF http_env_today http_env_accepts] h n] by simp
qed

subsection \<open>The project of the client\<close>

lemma load_project_unfold:
  "load_project E self tr =
     (case project_request E self of
        Inl e \<Rightarrow> (Inl e, tr)
      | Inr req \<Rightarrow>
          (case http E tr req of
             Response b \<Rightarrow>
               (case loads b of
                  Inl e \<Rightarrow> (Inl e, tr @ [UrlOpen req])
                | Inr v \<Rightarrow> (Inr (self\<lparr>project := v\<rparr>), tr @ [UrlOpen req]))
           | HTTPFailure code b \<Rightarrow> (Inl (HTTPError code b), tr @ [UrlOpen req])
           | URLFailure \<Rightarrow> (Inl URLError, tr @ [UrlOpen req])))"
  by (simp add: load_project_def bind_io_def lift_io_def urlopen_def
      split: sum.splits http_reply.splits)

text \<open>
  C9. A client on which \<^verbatim>\<open>load_project\<close> has not run holds no project:
  \<^verbatim>\<open>assert_version\<close> raises \<^verbatim>\<open>TypeError\<close> on \<^verbatim>\<open>self.project["id"]\<close> and sends
  nothing, so no version is created. After a \<^verbatim>\<open>load_project\<close> that returned, when
  the stored project has an \<^verbatim>\<open>id\<close> (and \<^verbatim>\<open>urllib\<close> accepts the URL of the version
  resource), \<^verbatim>\<open>assert_version\<close> sends exactly one request, a POST to the version
  resource, and the \<^verbatim>\<open>projectId\<close> of its payload is that id.
\<close>

theorem assert_version_needs_project:
  "assert_version E (Jira key mail api url) version tr = (Inl TypeError, tr) \<and>
   (load_project E (Jira key mail api url) tr0 = (Inr self, tr1) \<and>
    getitem (project self) (lit ''id'') = Inr project_id \<and>
    accepts_url E (url @ lit ''/rest/api/2/version'') \<longrightarrow>
      (\<exists>req payload. snd (assert_version E self version tr) = tr @ [UrlOpen req] \<and>
         req_method req = POST \<and> req_url req = url @ lit ''/rest/api/2/version'' \<and>
         req_data req = Some payload \<and>
         getitem payload (lit ''projectId'') = Inr project_id))"
proof -
  have 1: "assert_version E (Jira key mail api url) version tr = (Inl TypeError, tr)"
    by (simp add: assert_version_unfold version_request_def Jira_def)
  have 2: "\<exists>req payload. snd (assert_version E self version tr) = tr @ [UrlOpen req] \<and>
         req_method req = POST \<and> req_url req = url @ lit ''/rest/api/2/version'' \<and>
         req_data req = Some payload \<and> getitem payload (lit ''projectId'') = Inr project_id"
    if l: "load_project E (Jira key mail api url) tr0 = (Inr self, tr1)"
      and g: "getitem (project self) (lit ''id'') = Inr project_id"
      and ok': "accepts_url E (url @ lit ''/rest/api/2/version'')"
  proof -
    let ?j = "Jira key mail api url"
    from l obtain r0 where r0: "project_request E ?j = Inr r0"
      by (cases "project_request E ?j") (auto simp: load_project_unfold)
    from l r0 obtain v where self: "self = ?j\<lparr>project := v\<rparr>"
      by (auto simp: load_project_unfold split: http_reply.splits sum.splits)
    from r0 obtain cred where cred: "encode_ascii (mail @ lit '':'' @ api) = Inr cred"
      by (cases "encode_ascii (mail @ lit '':'' @ api)")
         (auto simp: project_request_def Request_def add_jira_auth_def Jira_def split: if_splits)
    define payload where "payload =
       JDict [(lit ''archived'', JBool False), (lit ''releaseDate'', JStr (today E)),
              (lit ''name'', JStr version), (lit ''projectId'', project_id),
              (lit ''released'', JBool True)]"
    define req where "req =
       add_header (lit ''Content-Type'') (lit ''application/json'')
         (add_header (lit ''Accept'') (lit ''application/json'')
           (add_header (lit ''Authorization'') (basic_auth (b64encode cred))
             \<lparr>req_method = POST, req_url = url @ lit ''/rest/api/2/version'',
              req_headers = [], req_data = Some payload\<rparr>))"
    have vr: "version_request E self version = Inr req"
      using g ok' cred
      by (simp add: version_request_def self Jira_def Request_def add_jira_auth_def req_def
          payload_def)
    have "snd (assert_version E self version tr) = tr @ [UrlOpen req]"
      by (simp add: assert_version_unfold vr split: http_reply.splits sum.splits)
    moreover have "req_method req = POST" "req_url req = url @ lit ''/rest/api/2/version''"
      "req_data req = Some payload"
      by (simp_all add: req_def add_header_def)
    moreover have "getitem payload (lit ''projectId'') = Inr project_id"
      by (simp add: payload_def lit_def)
    ultimately show ?thesis by blast
  qed
  from 1 2 show ?thesis by blast
qed

theorem assert_version_needs_project_witness:
  "load_project (http_env (Response (Parsed example_project)))
       (Jira (lit ''ABC'') (lit ''bot@acme.io'') (lit ''s3cret'')
          (lit ''https://acme.atlassian.net'')) [] =
     (Inr example_jira, [UrlOpen example_project_request]) \<and>
   getitem (project example_jira) (lit ''id'') = Inr (JStr (lit ''10000'')) \<and>
   assert_version (http_env (Response (Parsed example_project)))
       (Jira (lit ''ABC'') (lit ''bot@acme.io'') (lit ''s3cret'')
          (lit ''https://acme.atlassian.net'')) (lit ''v1.2.3'') [] =
     (Inl TypeError, []) \<and>
   assert_version (http_env (Response (Parsed example_project))) example_jira
       (lit ''v1.2.3'') [UrlOpen example_project_request] =
     (Inr (), [UrlOpen example_project_request, UrlOpen example_version_request]) \<and>
   (\<exists>payload. req_data example_version_request = Some payload \<and>
      getitem payload (lit ''projectId'') = Inr (JStr (lit ''10000''))) \<and>
   (\<exists>req payload.
      snd (assert_version (http_env (Response (Parsed example_project))) example_jira
             (lit ''v1.2.3'') []) = [UrlOpen req] \<and>
      req_method req = POST \<and>
      req_url req = lit ''https://acme.atlassian.net'' @ lit ''/rest/api/2/version'' \<and>
      req_data req = Some payload \<and>
      getitem payload (lit ''projectId'') = Inr (JStr (lit ''10000'')))"
proof -
  let ?E = "http_env (Response (Parsed example_project))"
  let ?j = "Jira (lit ''ABC'') (lit ''bot@acme.io'') (lit ''s3cret'')
      (lit ''https://acme.atlassian.net'')"
  have a: "add_jira_auth ?j req =
      Inr (req\<lparr>req_headers := req_headers req @ example_headers\<rparr>)" for req
    by (rule example_auth) (simp_all add: Jira_def)
  have u: "accepts_url ?E (jira_url ?j @ lit ''/rest/api/2/project/'' @ project_key ?j)"
    by (simp add: http_env_def url_type_ok_def Jira_def lit_def)
  have u': "accepts_url ?E (lit ''https://acme.atlassian.net'' @ lit ''/rest/api/2/version'')"
    by (simp add: http_env_def url_type_ok_def lit_def)
  have j: "jira_url ?j @ lit ''/rest/api/2/project/'' @ project_key ?j =
      lit ''https://acme.atlassian.net/rest/api/2/project/ABC''"
    by (simp add: Jira_def lit_append)
  have r: "project_request ?E ?j = Inr example_project_request"
    by (simp add: project_request_def Request_def u a)
       (simp add: j example_project_request_def)
  have s: "?j\<lparr>project := example_project\<rparr> = example_jira"
    by (simp add: Jira_def example_jira_def)
  have h: "http ?E [] example_project_request = Response (Parsed example_project)"
    by (simp add: http_env_def)
  have l: "load_project ?E ?j [] = (Inr example_jira, [UrlOpen example_project_request])"
    by (simp add: load_project_unfold r h loads_def s)
  have g: "getitem (project example_jira) (lit ''id'') = Inr (JStr (lit ''10000''))"
    by (simp add: example_jira_def example_project_def lit_def)
  have v: "assert_version ?E example_jira (lit ''v1.2.3'') [UrlOpen example_project_request] =
      (Inr (), [UrlOpen example_project_request, UrlOpen example_version_request])"
    by (simp add: assert_version_unfold example_version_request [OF http_env_today http_env_accepts])
       (simp add: http_env_def loads_def)
  have d: "\<exists>payload. req_data example_version_request = Some payload \<and>
      getitem payload (lit ''projectId'') = Inr (JStr (lit ''10000''))"
    by (simp add: example_version_request_def lit_def)
  from assert_version_needs_project
    [of ?E "lit ''ABC''" "lit ''bot@acme.io''" "lit ''s3cret''" "lit ''https://acme.atlassian.net''"
      "lit ''v1.2.3''" "[]" "[]" example_jira "[UrlOpen example_project_request]"
      "JStr (lit ''10000'')"]
  have "assert_version ?E ?j (lit ''v1.2.3'') [] = (Inl TypeError, []) \<and>
      (\<exists>req payload.
         snd (assert_version ?E example_jira (lit ''v1.2.3'') []) = [] @ [UrlOpen req] \<and>
         req_method req = POST \<and>
         req_url req = lit ''https://acme.atlassian.net'' @ lit ''/rest/api/2/version'' \<and>
         req_data req = Some payload \<and>
         getitem payload (lit ''projectId'') = Inr (JStr (lit ''10000'')))"
    using l g u' by blast
  with l g v d show ?thesis by simp
qed

subsection \<open>A version that is not a release tag\<close>

lemma http_calls_append: "http_calls (a @ b) = http_calls a @ http_calls b"
  by (induction a rule: http_calls.induct) auto

lemma check_output_no_http: "http_calls (snd (check_output E argv tr)) = http_calls tr"
  by (simp add: check_output_def http_calls_append)

lemma try_fetch_no_http: "http_calls (snd (try_fetch E argv tr)) = http_calls tr"
proof -
  have "snd (try_fetch E argv tr) = snd (check_output E argv tr)"
    by (simp add: try_fetch_def check_output_def split: proc_reply.splits sum.splits)
  then show ?thesis by (simp add: check_output_no_http)
qed

lemma resolve_version_no_http: "http_calls (snd (resolve_version E a tr)) = http_calls tr"
proof -
  have "snd (describe_tags E tr) = snd (check_output E [lit ''git'', lit ''describe'', lit ''--tags''] tr)"
    by (simp add: describe_tags_def bind_io_def lift_io_def check_output_def
        split: proc_reply.splits)
  then have "http_calls (snd (describe_tags E tr)) = http_calls tr"
    by (simp add: check_output_no_http)
  then show ?thesis
    by (simp add: resolve_version_def lift_io_def split: option.splits)
qed

lemma bind_io_no_http:
  assumes "\<And>tr. http_calls (snd (m tr)) = http_calls tr"
    and "\<And>x tr. http_calls (snd (f x tr)) = http_calls tr"
  shows "http_calls (snd (bind_io m f tr)) = http_calls tr"
proof (cases "m tr")
  case (Pair r tr')
  with assms(1) [of tr] have "http_calls tr' = http_calls tr" by simp
  with Pair assms(2) show ?thesis
    by (cases r) (simp_all add: bind_io_def)
qed

lemma fetch_and_resolve_no_http:
  "http_calls (snd (fetch_and_resolve E a tr)) = http_calls tr"
  unfolding fetch_and_resolve_def
  by (intro bind_io_no_http try_fetch_no_http resolve_version_no_http)

lemma release_pattern_examples:
  "re_match release_pattern (lit ''v1.2.3'') \<and>
   re_match release_pattern (lit ''v10.20.30\<newline>'') \<and>
   \<not> re_match release_pattern (lit ''v1.2.3-rc1'') \<and>
   \<not> re_match release_pattern (lit ''v1.2'') \<and>
   \<not> re_match release_pattern (lit ''1.2.3'')"
  by (simp add: re_match_def release_pattern_def lit_def isdecimal_def decimal_ranges_def)

text \<open>
  C4. When the fetches and the resolution of the version (lines 152 to 172) yield a
  version that \<^verbatim>\<open>^v\d+\.\d+\.\d+$\<close> does not match, \<^verbatim>\<open>main\<close> returns normally
  right there: its log is the log of those steps, and that log holds no HTTP request,
  to the tracker or to the code host.
\<close>

theorem main_no_release:
  assumes "fetch_and_resolve E a [] = (Inr version, tr)"
    and "\<not> re_match release_pattern version"
  shows "main E a [] = (Inr (), tr) \<and> http_calls tr = []"
proof -
  from assms have "main E a [] = (Inr (), tr)"
    by (simp add: main_def bind_io_def lift_io_def)
  moreover from fetch_and_resolve_no_http [of E a "[]"] assms(1) have "http_calls tr = []"
    by simp
  ultimately show ?thesis by simp
qed

theorem main_no_release_witness:
  "fetch_and_resolve (git_env '''') (example_args (Some (lit ''v1.2.3-rc1''))) [] =
     (Inr (lit ''v1.2.3-rc1''),
      [Subprocess [lit ''git'', lit ''fetch'', lit ''--unshallow''],
       Subprocess [lit ''git'', lit ''fetch'', lit ''--tags'']]) \<and>
   main (git_env '''') (example_args (Some (lit ''v1.2.3-rc1''))) [] =
     (Inr (),
      [Subprocess [lit ''git'', lit ''fetch'', lit ''--unshallow''],
       Subprocess [lit ''git'', lit ''fetch'', lit ''--tags'']])"
proof -
  have n: "lit ''v1.2.3-rc1'' \<noteq> []" by (simp add: lit_def)
  have f: "try_fetch (git_env '''') argv tr = (Inr (), tr @ [Subprocess argv])" for argv tr
    by (simp add: try_fetch_def check_output_def git_env_def decode_def)
  have r: "fetch_and_resolve (git_env '''') (example_args (Some (lit ''v1.2.3-rc1''))) [] =
     (Inr (lit ''v1.2.3-rc1''),
      [Subprocess [lit ''git'', lit ''fetch'', lit ''--unshallow''],
       Subprocess [lit ''git'', lit ''fetch'', lit ''--tags'']])"
    by (simp add: fetch_and_resolve_def bind_io_def f resolve_version_def example_args_def n
        lift_io_def)
  have m: "\<not> re_match release_pattern (lit ''v1.2.3-rc1'')"
    by (simp add: re_match_def release_pattern_def lit_def isdecimal_def decimal_ranges_def)
  from main_no_release [OF r m] r show ?thesis by simp
qed

subsection \<open>The attachment loop\<close>

lemma add_fix_version_to_issue_unfold:
  "add_fix_version_to_issue E j issue_id version tr =
     (case issue_request E j issue_id version of
        Inl e \<Rightarrow> (Inl e, tr)
      | Inr req \<Rightarrow>
          (case http E tr req of
             Response b \<Rightarrow> (Inr (), tr @ [UrlOpen req])
           | HTTPFailure code b \<Rightarrow> (Inl (HTTPError code b), tr @ [UrlOpen req])
           | URLFailure \<Rightarrow> (Inl URLError, tr @ [UrlOpen req])))"
  by (simp add: add_fix_version_to_issue_def bind_io_def lift_io_def urlopen_def
      split: sum.splits http_reply.splits)

lemma attach_all_succeeds:
  assumes "list_all2 (\<lambda>i r. issue_request E j i version = Inr r) ids reqs"
    and "\<forall>k < length reqs. \<exists>b. http E (tr @ map UrlOpen (take k reqs)) (reqs ! k) = Response b"
  shows "attach_all E j version ids tr = (Inr (), tr @ map UrlOpen reqs)"
  using assms
proof (induction ids arbitrary: reqs tr)
  case Nil
  then show ?case by (simp add: lift_io_def)
next
  case (Cons i ids)
  from Cons.prems(1) obtain r rs where reqs: "reqs = r # rs"
    and r: "issue_request E j i version = Inr r"
    and rs: "list_all2 (\<lambda>i r. issue_request E j i version = Inr r) ids rs"
    by (auto simp: list_all2_Cons1)
  from Cons.prems(2) [rule_format, of 0] obtain b where b: "http E tr r = Response b"
    by (auto simp: reqs)
  have "\<forall>k < length rs. \<exists>b. http E ((tr @ [UrlOpen r]) @ map UrlOpen (take k rs)) (rs ! k) = Response b"
  proof (intro allI impI)
    fix k assume "k < length rs"
    with Cons.prems(2) [rule_format, of "Suc k"] show
      "\<exists>b. http E ((tr @ [UrlOpen r]) @ map UrlOpen (take k rs)) (rs ! k) = Response b"
      by (simp add: reqs)
  qed
  from Cons.IH [OF rs this] show ?case
    by (simp add: bind_io_def add_fix_version_to_issue_unfold r b reqs)
qed


lemma attach_all_fails:
  assumes "list_all2 (\<lambda>i r. issue_request E j i version = Inr r) attached reqs"
    and "\<forall>k < length reqs. \<exists>b. http E (tr @ map UrlOpen (take k reqs)) (reqs ! k) = Response b"
    and "issue_request E j failing version = Inr req"
    and "http E (tr @ map UrlOpen reqs) req = HTTPFailure code b"
  shows "attach_all E j version (attached @ failing # rest) tr =
           (Inl (HTTPError code b), tr @ map UrlOpen reqs @ [UrlOpen req])"
  using assms
proof (induction attached arbitrary: reqs tr)
  case Nil
  then show ?case by (simp add: bind_io_def add_fix_version_to_issue_unfold)
next
  case (Cons i ids)
  from Cons.prems(1) obtain r rs where reqs: "reqs = r # rs"
    and r: "issue_request E j i version = Inr r"
    and rs: "list_all2 (\<lambda>i r. issue_request E j i version = Inr r) ids rs"
    by (auto simp: list_all2_Cons1)
  from Cons.prems(2) [rule_format, of 0] obtain b0 where b0: "http E tr r = Response b0"
    by (auto simp: reqs)
  have ok: "\<forall>k < length rs. \<exists>b. http E ((tr @ [UrlOpen r]) @ map UrlOpen (take k rs)) (rs ! k) = Response b"
  proof (intro allI impI)
    fix k assume "k < length rs"
    with Cons.prems(2) [rule_format, of "Suc k"] show
      "\<exists>b. http E ((tr @ [UrlOpen r]) @ map UrlOpen (take k rs)) (rs ! k) = Response b"
      by (simp add: reqs)
  qed
  from Cons.prems(4) have "http E ((tr @ [UrlOpen r]) @ map UrlOpen rs) req = HTTPFailure code b"
    by (simp add: reqs)
  from Cons.IH [OF rs ok Cons.prems(3) this] show ?case
    by (simp add: bind_io_def add_fix_version_to_issue_unfold r b0 reqs)
qed


subsection \<open>The set of issue references\<close>

lemma insert_at_simps:
  "insert_at i x [] = [x]"
  "insert_at 0 x xs = x # xs"
  "insert_at (Suc k) x (y # ys) = y # insert_at k x ys"
  by (simp_all add: insert_at_def)

lemma set_insert_at: "set (insert_at i x xs) = insert x (set xs)"
proof (induction xs arbitrary: i)
  case Nil
  show ?case by (simp add: insert_at_simps)
next
  case (Cons y ys)
  then show ?case by (cases i) (auto simp: insert_at_simps)
qed

lemma distinct_insert_at: "distinct (insert_at i x xs) = (x \<notin> set xs \<and> distinct xs)"
proof (induction xs arbitrary: i)
  case Nil
  show ?case by (simp add: insert_at_simps)
next
  case (Cons y ys)
  then show ?case by (cases i) (auto simp: insert_at_simps set_insert_at)
qed

lemma set_shuffle: "set (shuffle seed xs) = set xs"
  by (induction xs arbitrary: seed) (simp_all add: set_insert_at)

lemma distinct_shuffle: "distinct (shuffle seed xs) = distinct xs"
  by (induction xs arbitrary: seed) (simp_all add: distinct_insert_at set_shuffle)

lemma set_list_of_set: "set (list_of_set seed xs) = set xs"
  by (simp add: list_of_set_def set_shuffle)

lemma distinct_list_of_set: "distinct (list_of_set seed xs)"
  by (simp add: list_of_set_def distinct_shuffle)

lemma release_unfold:
  "gather E a version tr0 = (Inr (j, ids), tr1) \<Longrightarrow>
   release E a version tr0 =
     bind_io (assert_version E j version)
       (\<lambda>u. attach_all E j version (list_of_set (hash_seed E) ids)) tr1"
  by (simp add: release_def bind_io_def)

lemma main_release:
  assumes "fetch_and_resolve E a [] = (Inr version, tr0)"
    and "re_match release_pattern version"
    and "gather E a version tr0 = (Inr (j, ids), tr1)"
    and "assert_version E j version tr1 = (Inr (), tr)"
  shows "main E a [] = attach_all E j version (list_of_set (hash_seed E) ids) tr"
  using assms by (simp add: main_def release_def bind_io_def)

subsection \<open>A release, step by step\<close>

lemma release_env_fetch:
  "try_fetch (release_env seed missing) [lit ''git'', lit ''fetch'', x] tr =
     (Inr (), tr @ [Subprocess [lit ''git'', lit ''fetch'', x]])"
proof -
  have "proc (release_env seed missing) tr [lit ''git'', lit ''fetch'', x] = Exit0 []"
    by (simp add: release_env_def git_tag_argv_def git_log_argv_def lit_def)
  then show ?thesis by (simp add: try_fetch_def check_output_def decode_def)
qed

lemma release_env_resolve:
  "fetch_and_resolve (release_env seed missing) (example_args (Some (lit ''v1.2.3''))) [] =
     (Inr (lit ''v1.2.3''),
      [Subprocess [lit ''git'', lit ''fetch'', lit ''--unshallow''],
       Subprocess [lit ''git'', lit ''fetch'', lit ''--tags'']])"
proof -
  have n: "lit ''v1.2.3'' \<noteq> []" by (simp add: lit_def)
  show ?thesis
    by (simp add: fetch_and_resolve_def bind_io_def release_env_fetch resolve_version_def
        example_args_def n lift_io_def)
qed

lemma release_env_project:
  "load_project (release_env seed missing)
       (Jira (lit ''ABC'') (lit ''bot@acme.io'') (lit ''s3cret'')
          (lit ''https://acme.atlassian.net'')) tr =
     (Inr example_jira, tr @ [UrlOpen example_project_request])"
proof -
  let ?j = "Jira (lit ''ABC'') (lit ''bot@acme.io'') (lit ''s3cret'')
      (lit ''https://acme.atlassian.net'')"
  have a: "add_jira_auth ?j req =
      Inr (req\<lparr>req_headers := req_headers req @ example_headers\<rparr>)" for req
    by (rule example_auth) (simp_all add: Jira_def)
  have u: "accepts_url (release_env seed missing)
      (jira_url ?j @ lit ''/rest/api/2/project/'' @ project_key ?j)"
    by (simp add: release_env_def url_type_ok_def Jira_def lit_def)
  have j: "jira_url ?j @ lit ''/rest/api/2/project/'' @ project_key ?j =
      lit ''https://acme.atlassian.net/rest/api/2/project/ABC''"
    by (simp add: Jira_def lit_append)
  have r: "project_request (release_env seed missing) ?j = Inr example_project_request"
    by (simp add: project_request_def Request_def u a)
       (simp add: j example_project_request_def)
  have s: "?j\<lparr>project := example_project\<rparr> = example_jira"
    by (simp add: Jira_def example_jira_def)
  have h: "http (release_env seed missing) tr example_project_request =
      Response (Parsed example_project)"
    by (simp add: release_env_def example_project_request_def example_pull_def
        example_issue_request_def lit_def)
  show ?thesis by (simp add: load_project_unfold r h loads_def s)
qed

lemma release_env_previous:
  "find_previous_version_tag (release_env seed missing) (lit ''v1.2.3'') tr =
     (Inr (Some (lit ''v1.2.2'')), tr @ [Subprocess git_tag_argv])"
proof -
  have p: "proc (release_env seed missing) tr git_tag_argv = Exit0 release_tags"
    by (simp add: release_env_def)
  have c: "candidate_tags release_tags = Inr [lit ''v1.2.3'', lit ''v1.2.2'']"
    by (simp add: release_tags_def candidate_tags_def strip_def whitespace_def decode_def
        cont_def hyphen_def lit_def)
  have n: "previous_tag [lit ''v1.2.3'', lit ''v1.2.2''] (lit ''v1.2.3'') =
      Inr (Some (lit ''v1.2.2''))"
    by (simp add: previous_tag_def lit_def)
  show ?thesis by (simp add: find_previous_version_tag_unfold p c n)
qed

lemma release_env_merged:
  "list_merged_prs (release_env seed missing) (lit ''v1.2.2'') (lit ''v1.2.3'') tr =
     (Inr [lit ''10'', lit ''11''],
      tr @ [Subprocess (git_log_argv (lit ''v1.2.2'') (lit ''v1.2.3''))])"
proof -
  have ne: "git_log_argv (lit ''v1.2.2'') (lit ''v1.2.3'') \<noteq> git_tag_argv"
    by (simp add: git_log_argv_def git_tag_argv_def lit_def)
  have p: "proc (release_env seed missing) tr (git_log_argv (lit ''v1.2.2'') (lit ''v1.2.3'')) =
      Exit0 release_log"
    by (simp add: release_env_def ne)
  have d: "decode (strip release_log) = Inr (lit (butlast release_log))"
    by (simp add: release_log_def strip_def whitespace_def decode_def cont_def lit_def)
  have n: "hash_numbers (lit (butlast release_log)) = [lit ''10'', lit ''11'']"
    by (simp add: release_log_def lit_def hash_def isdecimal_def decimal_ranges_def)
  show ?thesis using list_merged_prs_result [OF p d] by (simp only: n)
qed

lemma example_pull:
  assumes "accepts_url E = url_type_ok"
  shows "pull_request E example_github pr_id = Inr (example_pull pr_id)"
proof -
  have e: "encode_ascii (lit ''t0ken'' @ lit '':'') = Inr ''t0ken:''"
    by (simp add: lit_append encode_ascii_lit)
  have u: "accepts_url E (lit ''https://api.github.com/repos/'' @ lit ''acme'' @ lit ''/''
      @ lit ''app'' @ lit ''/pulls/'' @ pr_id)"
    by (simp add: assms url_type_ok_def lit_def)
  have j: "lit ''https://api.github.com/repos/'' @ lit ''acme'' @ lit ''/''
      @ lit ''app'' @ lit ''/pulls/'' @ pr_id =
      lit ''https://api.github.com/repos/acme/app/pulls/'' @ pr_id"
    by (simp add: lit_def)
  have b: "basic_auth (b64encode ''t0ken:'') = lit ''Basic dDBrZW46''"
    by (simp add: basic_auth_def lit_def b64_char_def b64_alphabet_def)
  have "pull_request E example_github pr_id =
      Inr (add_header (lit ''Authorization'') (basic_auth (b64encode ''t0ken:''))
        \<lparr>req_method = GET, req_url = lit ''https://api.github.com/repos/'' @ lit ''acme''
           @ lit ''/'' @ lit ''app'' @ lit ''/pulls/'' @ pr_id, req_headers = [],
         req_data = None\<rparr>)"
    by (simp add: pull_request_def example_github_def e u Request_def)
  then show ?thesis by (simp only: b j) (simp add: add_header_def example_pull_def)
qed

lemma release_env_accepts: "accepts_url (release_env seed missing) = url_type_ok"
  by (simp add: release_env_def)

lemma abc_pattern: "key_items (lit ''ABC'') = Some [Lit 65, Lit 66, Lit 67]"
  by (simp add: key_item_def special_chars_def lit_def)

lemma release_env_pr10:
  "get_jira_id_from_pr (release_env seed missing) example_github (lit ''ABC'') (lit ''10'') tr =
     (Inr [lit ''ABC-5'', lit ''ABC-5''], tr @ [UrlOpen (example_pull (lit ''10''))])"
proof -
  have h: "http (release_env seed missing) tr (example_pull (lit ''10'')) =
      Response (Parsed pr10)"
    by (simp add: release_env_def)
  have t: "getitem pr10 (lit ''title'') = Inr (JStr (lit ''Implements ABC-5''))"
    by (simp add: pr10_def lit_def)
  have hd: "getitem pr10 (lit ''head'') =
      Inr (JDict [(lit ''ref'', JStr (lit ''feature/ABC-5-impl''))])"
    by (simp add: pr10_def lit_def)
  have rf: "getitem (JDict [(lit ''ref'', JStr (lit ''feature/ABC-5-impl''))]) (lit ''ref'') =
      Inr (JStr (lit ''feature/ABC-5-impl''))"
    by simp
  have f1: "findall [Lit 65, Lit 66, Lit 67, Lit hyphen, DigitPlus]
      (lit ''Implements ABC-5'') = [lit ''ABC-5'']"
    by (simp add: lit_def hyphen_def isdecimal_def decimal_ranges_def)
  have f2: "findall [Lit 65, Lit 66, Lit 67, Lit hyphen, DigitPlus]
      (lit ''feature/ABC-5-impl'') = [lit ''ABC-5'']"
    by (simp add: lit_def hyphen_def isdecimal_def decimal_ranges_def)
  show ?thesis
    using get_jira_id_from_pr_result [OF abc_pattern example_pull [OF release_env_accepts] h t hd rf]
    by (simp only: f1 f2 append.simps)
qed

lemma release_env_pr11:
  "get_jira_id_from_pr (release_env seed missing) example_github (lit ''ABC'') (lit ''11'') tr =
     (Inr [lit ''ABC-7'', lit ''ABC-6''], tr @ [UrlOpen (example_pull (lit ''11''))])"
proof -
  have h: "http (release_env seed missing) tr (example_pull (lit ''11'')) =
      Response (Parsed pr11)"
    by (simp add: release_env_def example_pull_def lit_def)
  have t: "getitem pr11 (lit ''title'') = Inr (JStr (lit ''ABC-7: tidy up''))"
    by (simp add: pr11_def lit_def)
  have hd: "getitem pr11 (lit ''head'') =
      Inr (JDict [(lit ''ref'', JStr (lit ''feature/ABC-6-thing''))])"
    by (simp add: pr11_def lit_def)
  have rf: "getitem (JDict [(lit ''ref'', JStr (lit ''feature/ABC-6-thing''))]) (lit ''ref'') =
      Inr (JStr (lit ''feature/ABC-6-thing''))"
    by simp
  have f1: "findall [Lit 65, Lit 66, Lit 67, Lit hyphen, DigitPlus]
      (lit ''ABC-7: tidy up'') = [lit ''ABC-7'']"
    by (simp add: lit_def hyphen_def isdecimal_def decimal_ranges_def)
  have f2: "findall [Lit 65, Lit 66, Lit 67, Lit hyphen, DigitPlus]
      (lit ''feature/ABC-6-thing'') = [lit ''ABC-6'']"
    by (simp add: lit_def hyphen_def isdecimal_def decimal_ranges_def)
  show ?thesis
    using get_jira_id_from_pr_result [OF abc_pattern example_pull [OF release_env_accepts] h t hd rf]
    by (simp only: f1 f2 append.simps)
qed

lemma release_env_gather:
  "gather (release_env seed missing) (example_args (Some (lit ''v1.2.3''))) (lit ''v1.2.3'')
       [Subprocess [lit ''git'', lit ''fetch'', lit ''--unshallow''],
        Subprocess [lit ''git'', lit ''fetch'', lit ''--tags'']] =
     (Inr (example_jira, [lit ''ABC-5'', lit ''ABC-5'', lit ''ABC-7'', lit ''ABC-6'']),
      release_prefix)"
proof -
  have g: "\<lparr>token = lit ''t0ken'', repo_owner = lit ''acme'', repo_name = lit ''app''\<rparr> =
      example_github"
    by (simp add: example_github_def)
  show ?thesis
    by (simp add: gather_def example_args_def g bind_io_def lift_io_def release_env_project
        release_env_previous release_env_merged release_env_pr10 release_env_pr11
        release_prefix_def)
qed


lemma example_issue:
  assumes "accepts_url E = url_type_ok"
  shows "issue_request E example_jira issue_id (lit ''v1.2.3'') =
      Inr (example_issue_request issue_id)"
proof -
  have u: "accepts_url E (jira_url example_jira @ lit ''/rest/api/2/issue/'' @ issue_id)"
    by (simp add: assms url_type_ok_def example_jira_def lit_def)
  have j: "jira_url example_jira @ lit ''/rest/api/2/issue/'' @ issue_id =
      lit ''https://acme.atlassian.net/rest/api/2/issue/'' @ issue_id"
    by (simp add: example_jira_def lit_def)
  have a: "add_jira_auth example_jira req =
      Inr (req\<lparr>req_headers := req_headers req @ example_headers\<rparr>)" for req
    by (rule example_auth) (simp_all add: example_jira_def)
  show ?thesis
    by (simp add: issue_request_def Request_def u a)
       (simp add: j example_issue_request_def)
qed

lemma release_env_issue:
  "http (release_env seed missing) tr (example_issue_request issue_id) =
     (if issue_id = missing then HTTPFailure 404 NotJSON else Response (Parsed example_project))"
  by (simp add: release_env_def example_issue_request_def example_pull_def lit_def)

lemma release_env_version:
  "assert_version (release_env seed missing) example_jira (lit ''v1.2.3'') tr =
     (Inr (), tr @ [UrlOpen example_version_request])"
proof -
  have t: "today (release_env seed missing) = lit ''2020-05-01''"
    by (simp add: release_env_def)
  have h: "http (release_env seed missing) tr example_version_request =
      Response (Parsed example_project)"
    by (simp add: release_env_def example_version_request_def example_pull_def
        example_issue_request_def lit_def)
  show ?thesis
    by (simp add: assert_version_unfold example_version_request [OF t release_env_accepts] h
        loads_def)
qed

lemma release_env_attach:
  "missing \<notin> set ids \<Longrightarrow>
   attach_all (release_env seed missing) example_jira (lit ''v1.2.3'') ids tr =
     (Inr (), tr @ map (\<lambda>i. UrlOpen (example_issue_request i)) ids)"
  by (induction ids arbitrary: tr)
     (auto simp: lift_io_def bind_io_def add_fix_version_to_issue_unfold
        example_issue [OF release_env_accepts] release_env_issue)

text \<open>
  C7. The issue references gathered from the pull requests reach the attachment loop
  through \<^verbatim>\<open>list(set(...))\<close>: once \<open>gather\<close> has returned the references \<open>ids\<close>, in
  whatever number and order, the loop runs on a list without repetitions that holds
  exactly the references of \<open>ids\<close>, for every order the hash seed may pick.
\<close>

theorem release_ids_set:
  assumes "gather E a version tr0 = (Inr (j, ids), tr1)"
  shows "release E a version tr0 =
           bind_io (assert_version E j version)
             (\<lambda>u. attach_all E j version (list_of_set (hash_seed E) ids)) tr1 \<and>
         distinct (list_of_set (hash_seed E) ids) \<and>
         set (list_of_set (hash_seed E) ids) = set ids"
  using release_unfold [OF assms] by (simp add: set_list_of_set distinct_list_of_set)

theorem release_ids_set_witness:
  "gather (release_env 2 (lit ''ABC-0'')) (example_args (Some (lit ''v1.2.3''))) (lit ''v1.2.3'')
       [Subprocess [lit ''git'', lit ''fetch'', lit ''--unshallow''],
        Subprocess [lit ''git'', lit ''fetch'', lit ''--tags'']] =
     (Inr (example_jira, [lit ''ABC-5'', lit ''ABC-5'', lit ''ABC-7'', lit ''ABC-6'']),
      release_prefix) \<and>
   list_of_set 2 [lit ''ABC-5'', lit ''ABC-5'', lit ''ABC-7'', lit ''ABC-6''] =
     [lit ''ABC-7'', lit ''ABC-6'', lit ''ABC-5''] \<and>
   release (release_env 2 (lit ''ABC-0'')) (example_args (Some (lit ''v1.2.3''))) (lit ''v1.2.3'')
       [Subprocess [lit ''git'', lit ''fetch'', lit ''--unshallow''],
        Subprocess [lit ''git'', lit ''fetch'', lit ''--tags'']] =
     (Inr (),
      release_prefix @
      [UrlOpen example_version_request,
       UrlOpen (example_issue_request (lit ''ABC-7'')),
       UrlOpen (example_issue_request (lit ''ABC-6'')),
       UrlOpen (example_issue_request (lit ''ABC-5''))])"
proof -
  let ?E = "release_env 2 (lit ''ABC-0'')"
  have s: "hash_seed ?E = 2" by (simp add: release_env_def)
  have l: "list_of_set 2 [lit ''ABC-5'', lit ''ABC-5'', lit ''ABC-7'', lit ''ABC-6''] =
      [lit ''ABC-7'', lit ''ABC-6'', lit ''ABC-5'']"
    by (simp add: list_of_set_def insert_at_def lit_def)
  have m: "lit ''ABC-0'' \<notin> set [lit ''ABC-7'', lit ''ABC-6'', lit ''ABC-5'']"
    by (simp add: lit_def)
  from release_ids_set [OF release_env_gather [of 2 "lit ''ABC-0''"]]
  have "release ?E (example_args (Some (lit ''v1.2.3''))) (lit ''v1.2.3'')
       [Subprocess [lit ''git'', lit ''fetch'', lit ''--unshallow''],
        Subprocess [lit ''git'', lit ''fetch'', lit ''--tags'']] =
      bind_io (assert_version ?E example_jira (lit ''v1.2.3''))
        (\<lambda>u. attach_all ?E example_jira (lit ''v1.2.3'')
           (list_of_set (hash_seed ?E) [lit ''ABC-5'', lit ''ABC-5'', lit ''ABC-7'', lit ''ABC-6'']))
        release_prefix"
    by (rule conjunct1)
  then have "release ?E (example_args (Some (lit ''v1.2.3''))) (lit ''v1.2.3'')
       [Subprocess [lit ''git'', lit ''fetch'', lit ''--unshallow''],
        Subprocess [lit ''git'', lit ''fetch'', lit ''--tags'']] =
     (Inr (),
      release_prefix @
      [UrlOpen example_version_request,
       UrlOpen (example_issue_request (lit ''ABC-7'')),
       UrlOpen (example_issue_request (lit ''ABC-6'')),
       UrlOpen (example_issue_request (lit ''ABC-5''))])"
    by (simp add: s l bind_io_def release_env_version release_env_attach [OF m]
        del: attach_all.simps)
  with release_env_gather [of 2 "lit ''ABC-0''"] l show ?thesis by simp
qed

text \<open>
  C5. The attachments are requests made one after the other. In a run that reaches
  the loop, when the requests for the issues \<open>attached\<close> are answered and the request
  for the issue \<open>failing\<close> is refused with an HTTP error, \<^verbatim>\<open>main\<close> ends with that
  error, and the log ends with the requests for \<open>attached\<close> followed by the one refused
  request: it was sent once, nothing was sent to undo the earlier attachments, and the
  issues of \<open>rest\<close> were not touched.
\<close>

theorem main_stops_at_failed_attachment:
  assumes "fetch_and_resolve E a [] = (Inr version, tr0)"
    and "re_match release_pattern version"
    and "gather E a version tr0 = (Inr (j, ids), tr1)"
    and "assert_version E j version tr1 = (Inr (), tr)"
    and "list_of_set (hash_seed E) ids = attached @ failing # rest"
    and "list_all2 (\<lambda>i r. issue_request E j i version = Inr r) attached reqs"
    and "\<forall>k < length reqs. \<exists>b. http E (tr @ map UrlOpen (take k reqs)) (reqs ! k) = Response b"
    and "issue_request E j failing version = Inr req"
    and "http E (tr @ map UrlOpen reqs) req = HTTPFailure code b"
  shows "main E a [] = (Inl (HTTPError code b), tr @ map UrlOpen reqs @ [UrlOpen req])"
  using main_release [OF assms(1-4)] attach_all_fails [OF assms(6-9)] assms(5) by simp

theorem main_stops_at_failed_attachment_witness:
  "list_of_set 0 [lit ''ABC-5'', lit ''ABC-5'', lit ''ABC-7'', lit ''ABC-6''] =
     [lit ''ABC-5''] @ lit ''ABC-7'' # [lit ''ABC-6''] \<and>
   main (release_env 0 (lit ''ABC-7'')) (example_args (Some (lit ''v1.2.3''))) [] =
     (Inl (HTTPError 404 NotJSON),
      release_prefix @
      [UrlOpen example_version_request,
       UrlOpen (example_issue_request (lit ''ABC-5'')),
       UrlOpen (example_issue_request (lit ''ABC-7''))])"
proof -
  let ?E = "release_env 0 (lit ''ABC-7'')"
  have m: "re_match release_pattern (lit ''v1.2.3'')"
    by (simp add: re_match_def release_pattern_def lit_def isdecimal_def decimal_ranges_def)
  have l: "list_of_set (hash_seed ?E) [lit ''ABC-5'', lit ''ABC-5'', lit ''ABC-7'', lit ''ABC-6''] =
      [lit ''ABC-5''] @ lit ''ABC-7'' # [lit ''ABC-6'']"
    by (simp add: release_env_def list_of_set_def insert_at_def lit_def)
  have a: "list_all2 (\<lambda>i r. issue_request ?E example_jira i (lit ''v1.2.3'') = Inr r)
      [lit ''ABC-5''] [example_issue_request (lit ''ABC-5'')]"
    by (simp add: example_issue [OF release_env_accepts])
  have n: "lit ''ABC-5'' \<noteq> lit ''ABC-7''" by (simp add: lit_def)
  have ok: "\<forall>k < length [example_issue_request (lit ''ABC-5'')]. \<exists>b.
      http ?E ((release_prefix @ [UrlOpen example_version_request]) @
          map UrlOpen (take k [example_issue_request (lit ''ABC-5'')]))
        ([example_issue_request (lit ''ABC-5'')] ! k) = Response b"
    by (simp add: release_env_issue n)
  have f: "http ?E ((release_prefix @ [UrlOpen example_version_request]) @
        map UrlOpen [example_issue_request (lit ''ABC-5'')])
      (example_issue_request (lit ''ABC-7'')) = HTTPFailure 404 NotJSON"
    by (simp add: release_env_issue)
  from main_stops_at_failed_attachment
    [OF release_env_resolve m release_env_gather release_env_version l a ok
      example_issue [OF release_env_accepts] f]
  have "main ?E (example_args (Some (lit ''v1.2.3''))) [] =
     (Inl (HTTPError 404 NotJSON),
      (release_prefix @ [UrlOpen example_version_request]) @
      map UrlOpen [example_issue_request (lit ''ABC-5'')] @
      [UrlOpen (example_issue_request (lit ''ABC-7''))])" .
  then show ?thesis using l by (simp add: release_env_def)
qed

subsection \<open>Further properties\<close>

text \<open>
  X1. A fetch that exits with an error is passed over: \<^verbatim>\<open>main\<close> goes on after it.
\<close>

theorem try_fetch_passes_over:
  "proc E tr argv = NonZeroExit \<Longrightarrow> try_fetch E argv tr = (Inr (), tr @ [Subprocess argv])"
  by (simp add: try_fetch_def check_output_def)

theorem try_fetch_passes_over_witness:
  "fetch_and_resolve failing_git_env (example_args (Some (lit ''v1.2.3''))) [] =
     (Inr (lit ''v1.2.3''),
      [Subprocess [lit ''git'', lit ''fetch'', lit ''--unshallow''],
       Subprocess [lit ''git'', lit ''fetch'', lit ''--tags'']])"
proof -
  have p: "proc failing_git_env tr argv = NonZeroExit" for tr argv
    by (simp add: failing_git_env_def)
  have n: "lit ''v1.2.3'' \<noteq> []" by (simp add: lit_def)
  show ?thesis
    using try_fetch_passes_over [OF p]
    by (simp add: fetch_and_resolve_def bind_io_def resolve_version_def example_args_def n
        lift_io_def)
qed

text \<open>
  X2. When the target is among the candidate tags and a tag follows its first
  occurrence, \<^verbatim>\<open>find_previous_version_tag\<close> returns that next tag.
\<close>

theorem find_previous_version_tag_next:
  assumes "proc E tr git_tag_argv = Exit0 out"
    and "candidate_tags out = Inr (newer @ version # older # rest)"
    and "version \<notin> set newer"
  shows "find_previous_version_tag E version tr =
           (Inr (Some older), tr @ [Subprocess git_tag_argv])"
  using assms by (simp add: find_previous_version_tag_unfold previous_tag_next)

theorem find_previous_version_tag_next_witness:
  "find_previous_version_tag (git_env ''v2.0.0\<newline>v1.5.0\<newline>v1.0.0\<newline>'') (lit ''v1.5.0'') [] =
     (Inr (Some (lit ''v1.0.0'')), [Subprocess git_tag_argv])"
proof -
  have p: "proc (git_env ''v2.0.0\<newline>v1.5.0\<newline>v1.0.0\<newline>'') [] git_tag_argv =
      Exit0 ''v2.0.0\<newline>v1.5.0\<newline>v1.0.0\<newline>''"
    by (simp add: git_env_def)
  have c: "candidate_tags ''v2.0.0\<newline>v1.5.0\<newline>v1.0.0\<newline>'' =
      Inr ([lit ''v2.0.0''] @ lit ''v1.5.0'' # lit ''v1.0.0'' # [])"
    by (simp add: candidate_tags_def strip_def whitespace_def decode_def cont_def hyphen_def
        lit_def)
  have n: "lit ''v1.5.0'' \<notin> set [lit ''v2.0.0'']" by (simp add: lit_def)
  show ?thesis using find_previous_version_tag_next [OF p c n] by simp
qed

text \<open>
  X3. When the target is not among the candidate tags, \<^verbatim>\<open>find_previous_version_tag\<close>
  returns \<^verbatim>\<open>None\<close>.
\<close>

theorem find_previous_version_tag_absent:
  assumes "proc E tr git_tag_argv = Exit0 out"
    and "candidate_tags out = Inr tags"
    and "version \<notin> set tags"
  shows "find_previous_version_tag E version tr = (Inr None, tr @ [Subprocess git_tag_argv])"
  using assms by (simp add: find_previous_version_tag_unfold previous_tag_absent)

theorem find_previous_version_tag_absent_witness:
  "find_previous_version_tag (git_env ''v2.0.0\<newline>v1.5.0\<newline>v1.0.0\<newline>'') (lit ''v3.0.0'') [] =
     (Inr None, [Subprocess git_tag_argv])"
proof -
  have p: "proc (git_env ''v2.0.0\<newline>v1.5.0\<newline>v1.0.0\<newline>'') [] git_tag_argv =
      Exit0 ''v2.0.0\<newline>v1.5.0\<newline>v1.0.0\<newline>''"
    by (simp add: git_env_def)
  have c: "candidate_tags ''v2.0.0\<newline>v1.5.0\<newline>v1.0.0\<newline>'' =
      Inr [lit ''v2.0.0'', lit ''v1.5.0'', lit ''v1.0.0'']"
    by (simp add: candidate_tags_def strip_def whitespace_def decode_def cont_def hyphen_def
        lit_def)
  have n: "lit ''v3.0.0'' \<notin> set [lit ''v2.0.0'', lit ''v1.5.0'', lit ''v1.0.0'']"
    by (simp add: lit_def)
  show ?thesis using find_previous_version_tag_absent [OF p c n] by simp
qed

text \<open>
  X4. Without a previous tag the log is taken from \<^verbatim>\<open><version>~100\<close>: after the
  project is loaded and the tag search has returned \<^verbatim>\<open>None\<close>, the run continues
  with \<^verbatim>\<open>list_merged_prs\<close> on that lower bound.
\<close>

theorem gather_falls_back:
  assumes "load_project E
             (Jira (arg_jira_project_key a) (arg_jira_email a) (arg_jira_api_key a)
                (arg_jira_url a)) tr0 = (Inr j, tr1)"
    and "find_previous_version_tag E version tr1 = (Inr None, tr2)"
  shows "gather E a version tr0 =
           bind_io (list_merged_prs E (version @ lit ''~100'') version) (\<lambda>merged_prs.
           bind_io (collect_jira_ids E
                      \<lparr>token = arg_github_token a, repo_owner = arg_github_repo_owner a,
                        repo_name = arg_github_repo_name a\<rparr>
                      (arg_jira_project_key a) merged_prs []) (\<lambda>ids.
           lift_io (Inr (j, ids)))) tr2"
  using assms by (simp add: gather_def bind_io_def)

theorem gather_falls_back_witness:
  "gather untagged_env (example_args (Some (lit ''v1.2.3''))) (lit ''v1.2.3'') [] =
     (Inr (example_jira, []),
      [UrlOpen example_project_request, Subprocess git_tag_argv,
       Subprocess (git_log_argv (lit ''v1.2.3~100'') (lit ''v1.2.3''))])"
proof -
  let ?j = "Jira (lit ''ABC'') (lit ''bot@acme.io'') (lit ''s3cret'')
      (lit ''https://acme.atlassian.net'')"
  have a: "add_jira_auth ?j req =
      Inr (req\<lparr>req_headers := req_headers req @ example_headers\<rparr>)" for req
    by (rule example_auth) (simp_all add: Jira_def)
  have u: "accepts_url untagged_env (jira_url ?j @ lit ''/rest/api/2/project/'' @ project_key ?j)"
    by (simp add: untagged_env_def url_type_ok_def Jira_def lit_def)
  have ju: "jira_url ?j @ lit ''/rest/api/2/project/'' @ project_key ?j =
      lit ''https://acme.atlassian.net/rest/api/2/project/ABC''"
    by (simp add: Jira_def lit_append)
  have r: "project_request untagged_env ?j = Inr example_project_request"
    by (simp add: project_request_def Request_def u a)
       (simp add: ju example_project_request_def)
  have s: "?j\<lparr>project := example_project\<rparr> = example_jira"
    by (simp add: Jira_def example_jira_def)
  have h: "http untagged_env [] example_project_request = Response (Parsed example_project)"
    by (simp add: untagged_env_def)
  have l: "load_project untagged_env
      (Jira (arg_jira_project_key (example_args (Some (lit ''v1.2.3''))))
         (arg_jira_email (example_args (Some (lit ''v1.2.3''))))
         (arg_jira_api_key (example_args (Some (lit ''v1.2.3''))))
         (arg_jira_url (example_args (Some (lit ''v1.2.3''))))) [] =
      (Inr example_jira, [UrlOpen example_project_request])"
    by (simp add: example_args_def load_project_unfold r h loads_def s)
  have p: "proc untagged_env tr argv = Exit0 []" for tr argv
    by (simp add: untagged_env_def)
  have c: "candidate_tags [] = Inr [[]]"
    by (simp add: candidate_tags_def strip_def decode_def hyphen_def)
  have f: "find_previous_version_tag untagged_env (lit ''v1.2.3'')
      [UrlOpen example_project_request] =
      (Inr None, [UrlOpen example_project_request, Subprocess git_tag_argv])"
    by (simp add: find_previous_version_tag_unfold p c previous_tag_def lit_def)
  have d: "decode (strip []) = Inr []" by (simp add: strip_def decode_def)
  have m: "list_merged_prs untagged_env (lit ''v1.2.3'' @ lit ''~100'') (lit ''v1.2.3'')
      [UrlOpen example_project_request, Subprocess git_tag_argv] =
      (Inr [], [UrlOpen example_project_request, Subprocess git_tag_argv,
         Subprocess (git_log_argv (lit ''v1.2.3~100'') (lit ''v1.2.3''))])"
    using list_merged_prs_result [OF p d] by (simp add: lit_append)
  show ?thesis
    using gather_falls_back [OF l f] by (simp add: bind_io_def m lift_io_def)
qed

text \<open>
  X5. A release from end to end: the fetches, the project, the tags, the log between
  \<^verbatim>\<open>v1.2.2\<close> and \<^verbatim>\<open>v1.2.3\<close>, the two pull requests, the version, and one attachment
  for each of the three issues, ABC-5 only once.
\<close>

theorem main_release_example:
  "main (release_env 2 (lit ''ABC-0'')) (example_args (Some (lit ''v1.2.3''))) [] =
     (Inr (),
      release_prefix @
      [UrlOpen example_version_request,
       UrlOpen (example_issue_request (lit ''ABC-7'')),
       UrlOpen (example_issue_request (lit ''ABC-6'')),
       UrlOpen (example_issue_request (lit ''ABC-5''))])"
proof -
  let ?E = "release_env 2 (lit ''ABC-0'')"
  have m: "re_match release_pattern (lit ''v1.2.3'')"
    by (simp add: re_match_def release_pattern_def lit_def isdecimal_def decimal_ranges_def)
  have l: "list_of_set (hash_seed ?E) [lit ''ABC-5'', lit ''ABC-5'', lit ''ABC-7'', lit ''ABC-6''] =
      [lit ''ABC-7'', lit ''ABC-6'', lit ''ABC-5'']"
    by (simp add: release_env_def list_of_set_def insert_at_def lit_def)
  have n: "lit ''ABC-0'' \<notin> set [lit ''ABC-7'', lit ''ABC-6'', lit ''ABC-5'']"
    by (simp add: lit_def)
  show ?thesis
    using main_release [OF release_env_resolve m release_env_gather release_env_version]
    by (simp only: l release_env_attach [OF n]) simp
qed

end
